theory Spec2Isabelle
  imports Main "HOL-Library.Product_Lexorder" "HOL-Library.Multiset"
begin

section \<open>Host-language values: strings, numbers and dates\<close>

text \<open>
  The data-access layer is TypeScript. Its strings are modelled as \<open>string\<close>; only the
  ASCII characters \<open>:\<close>, \<open>-\<close>, \<open>+\<close>, the decimal digits and white space are ever inspected.
  Its numbers are modelled as \<open>int\<close>: every number the layer handles is a row id, a counter
  or a row count, and the store's columns are 32-bit integers.
\<close>

text \<open>\<open>String.prototype.split(sep)\<close> with a one-character separator: every occurrence
  of the separator cuts, and the empty string gives one empty piece.\<close>

fun splitOn :: "char \<Rightarrow> string \<Rightarrow> string list" where
  "splitOn sep [] = [[]]"
| "splitOn sep (c # cs) =
     (if c = sep then [] # splitOn sep cs
      else (case splitOn sep cs of
              [] \<Rightarrow> [[c]]
            | w # ws \<Rightarrow> (c # w) # ws))"

definition isDigit :: "char \<Rightarrow> bool" where
  "isDigit c = (48 \<le> (of_char c :: nat) \<and> (of_char c :: nat) \<le> 57)"

definition digitValue :: "char \<Rightarrow> nat" where
  "digitValue c = of_char c - 48"

definition digitChar :: "nat \<Rightarrow> char" where
  "digitChar d = char_of (48 + d)"

definition digitsValue :: "string \<Rightarrow> nat" where
  "digitsValue ds = foldl (\<lambda>a c. 10 * a + digitValue c) 0 ds"

text \<open>The white space \<open>parseInt\<close> skips, among the characters below 256: tab, line feed,
  vertical tab, form feed, carriage return, space and no-break space.\<close>

definition isWhiteSpace :: "char \<Rightarrow> bool" where
  "isWhiteSpace c = ((of_char c :: nat) \<in> {9, 10, 11, 12, 13, 32, 160})"

text \<open>\<open>parseInt(s, 10)\<close>: leading white space is skipped, one sign is read, then the
  longest run of decimal digits; whatever follows is ignored. \<open>None\<close> is \<open>NaN\<close> (no digit
  was found). The host returns a double, which is exact below \<open>2^53\<close>; the only
  consumer, \<open>sqlInteger\<close> below, rejects everything outside the 32-bit range, so the
  exact integer is kept here.\<close>

definition parseInt :: "string \<Rightarrow> int option" where
  "parseInt s =
     (let t = dropWhile isWhiteSpace s;
          neg = (case t of [] \<Rightarrow> False | c # _ \<Rightarrow> c = CHR ''-'');
          u = (case t of [] \<Rightarrow> []
                 | c # r \<Rightarrow> if c = CHR ''-'' \<or> c = CHR ''+'' then r else t);
          ds = takeWhile isDigit u
      in if ds = [] then None
         else Some (if neg then - int (digitsValue ds) else int (digitsValue ds)))"

text \<open>Template-literal interpolation of an integer number (\<open>Number.prototype.toString\<close>):
  decimal digits, with a leading minus sign for a negative value.\<close>

fun natToString :: "nat \<Rightarrow> string" where
  "natToString n =
     (if n < 10 then [digitChar n] else natToString (n div 10) @ [digitChar (n mod 10)])"

declare natToString.simps [simp del]

definition numberToString :: "int \<Rightarrow> string" where
  "numberToString k =
     (if k < 0 then CHR ''-'' # natToString (nat (- k)) else natToString (nat k))"

text \<open>
  A \<open>Date\<close> is modelled by its UTC calendar fields (month and day counted from 1, as
  they are printed). \<open>getTime\<close> is the time value the host and the store compare dates by:
  milliseconds since 1970-01-01T00:00:00Z, computed from the fields by the usual
  days-from-civil formula of the proleptic Gregorian calendar. Years are those from 0
  on. A host date holds milliseconds and no more; the \<open>timestamptz\<close> columns of the
  store hold microseconds (see \<open>createdAtMicros\<close> below).
\<close>

record Date =
  utcFullYear :: nat
  utcMonth :: nat
  utcDate :: nat
  utcHours :: nat
  utcMinutes :: nat
  utcSeconds :: nat
  utcMilliseconds :: nat

definition daysFromCivil :: "int \<Rightarrow> int \<Rightarrow> int \<Rightarrow> int" where
  "daysFromCivil y m d =
     (let y' = (if m \<le> 2 then y - 1 else y);
          era = y' div 400;
          yoe = y' - era * 400;
          doy = (153 * (if m > 2 then m - 3 else m + 9) + 2) div 5 + d - 1;
          doe = yoe * 365 + yoe div 4 - yoe div 100 + doy
      in era * 146097 + doe - 719468)"

definition getTime :: "Date \<Rightarrow> int" where
  "getTime t =
     ((((daysFromCivil (int (utcFullYear t)) (int (utcMonth t)) (int (utcDate t)) * 24
         + int (utcHours t)) * 60
        + int (utcMinutes t)) * 60
       + int (utcSeconds t)) * 1000
      + int (utcMilliseconds t))"

definition padStart :: "nat \<Rightarrow> string \<Rightarrow> string" where
  "padStart n s = replicate (n - length s) (CHR ''0'') @ s"

text \<open>\<open>Date.prototype.toISOString\<close>: \<open>YYYY-MM-DDTHH:mm:ss.sssZ\<close>, and the expanded
  six-digit year with its sign beyond year 9999.\<close>

definition toISOString :: "Date \<Rightarrow> string" where
  "toISOString t =
     (if utcFullYear t \<le> 9999 then padStart 4 (natToString (utcFullYear t))
      else CHR ''+'' # padStart 6 (natToString (utcFullYear t)))
     @ ''-'' @ padStart 2 (natToString (utcMonth t))
     @ ''-'' @ padStart 2 (natToString (utcDate t))
     @ ''T'' @ padStart 2 (natToString (utcHours t))
     @ '':'' @ padStart 2 (natToString (utcMinutes t))
     @ '':'' @ padStart 2 (natToString (utcSeconds t))
     @ ''.'' @ padStart 3 (natToString (utcMilliseconds t))
     @ ''Z''"

text \<open>
  \<open>new Date(s)\<close> on a string is the host's date parser: it reads the forms of the
  language's date-time string format, and for any other string it falls back on rules
  of the implementation (which reads \<open>"5"\<close> as 1 May 2001 and \<open>"2024-02-30"\<close> as
  1 March 2024). No particular parser is fixed here. The functions that reach
  \<open>new Date(cursorValue)\<close> take the parser as their first argument \<open>newDate\<close>, with
  \<open>None\<close> for an \<open>Invalid Date\<close>, and what is proved of them is proved for every
  parser.
\<close>

type_synonym DateParser = "string \<Rightarrow> Date option"

text \<open>
  The clock of the store. \<open>defaultNow()\<close> fills a \<open>timestamptz\<close> column with the
  store's \<open>now()\<close>, which counts microseconds: \<open>ts_date\<close> is the time down to the
  millisecond, as a host date shows it, and \<open>ts_micros\<close> the microseconds within that
  millisecond (0 to 999).
\<close>

record Timestamp =
  ts_date :: Date
  ts_micros :: nat


section \<open>Schema\<close>

datatype PostType = POST | RESPONSE

datatype PostStatus = AWAITING_PROCESSING | PROCESSED | DELETED

datatype SortBy =
  NEWEST | OLDEST | MOST_SAVED | LEAST_SAVED | MOST_RESPONSES | LEAST_RESPONSES

text \<open>A row of the \<open>posts\<close> table. The column \<open>id\<close> is written \<open>id'\<close>. The column
  \<open>created_at\<close> is held in two fields: \<open>createdAt\<close> is the date a select hands to the
  host, cut to the millisecond, and \<open>createdAtMicros\<close> the microseconds the store keeps
  beyond it (0 to 999), which the host never sees but which the store compares and
  orders by.\<close>

record Post =
  id' :: int
  userId :: int
  type :: PostType
  parentId :: "int option"
  audioUrl :: string
  audioKey :: string
  duration :: int
  tags :: "string list"
  waveformUrl :: "string option"
  responseCount :: int
  bookmarkCount :: int
  city :: string
  active :: bool
  status :: PostStatus
  createdAt :: Date
  createdAtMicros :: nat
  updatedAt :: Date

text \<open>The columns of \<open>user_profiles\<close> that the post layer reads.\<close>

record UserProfile =
  profile_id :: int
  profile_userId :: int
  profile_username :: string
  profile_city :: string

record Bookmark =
  bookmark_userId :: int
  bookmark_postId :: int

text \<open>A row of \<open>notifications\<close>; its \<open>data\<close> is the object
  \<open>{type: "RESPONSE", postId, responseId, responderId}\<close>.\<close>

record Notification =
  notification_userId :: int
  data_postId :: int
  data_responseId :: int
  data_responderId :: int

text \<open>The store: the tables as lists of rows, and the sequence behind the serial
  column \<open>posts.id\<close>.\<close>

record Store =
  posts :: "Post list"
  userProfiles :: "UserProfile list"
  bookmarks :: "Bookmark list"
  notifications :: "Notification list"
  posts_id_seq :: int

text \<open>An exception of the host: \<open>Error msg\<close> is \<open>new Error(msg)\<close> thrown by the layer
  itself; \<open>QueryError\<close> is the exception that leaves a query whose parameter the store
  cannot read as a value of the compared column's type (a \<open>NaN\<close> or a number outside
  the 32-bit range against an integer column, an \<open>Invalid Date\<close> against a
  timestamp).\<close>

datatype error = Error string | QueryError

section \<open>Reading posts\<close>

record Author =
  author_id :: int
  author_userId :: int
  author_username :: string
  author_city :: string

record PostWithAuthor = Post +
  author :: Author
  isBookmarked :: bool

record GetPostsOptions =
  opt_city :: "string option"
  opt_tags :: "string list option"
  opt_type :: "PostType option"
  opt_userId :: "int option"
  opt_parentId :: "int option"
  opt_sortBy :: "SortBy option"
  opt_cursor :: "string option"
  opt_limit :: "nat option"
  opt_viewerUserId :: "int option"

record PostsPage =
  page_posts :: "PostWithAuthor list"
  hasMore :: bool
  nextCursor :: "string option"

text \<open>The object spread \<open>{...post, author, isBookmarked}\<close>.\<close>

definition withAuthor :: "Post \<Rightarrow> Author \<Rightarrow> bool \<Rightarrow> PostWithAuthor" where
  "withAuthor p a b = Post.extend p (PostWithAuthor.fields a b)"

definition selectAuthor :: "UserProfile \<Rightarrow> Author" where
  "selectAuthor u =
     \<lparr>author_id = profile_id u, author_userId = profile_userId u,
      author_username = profile_username u, author_city = profile_city u\<rparr>"

text \<open>\<open>from(posts).innerJoin(userProfiles, eq(posts.userId, userProfiles.userId))\<close>:
  one row for every pair of a post and a profile of its user.\<close>

definition postsJoinProfiles :: "Store \<Rightarrow> (Post \<times> Author) list" where
  "postsJoinProfiles db =
     concat (map (\<lambda>p. map (\<lambda>u. (p, selectAuthor u))
                         (filter (\<lambda>u. userId p = profile_userId u) (userProfiles db)))
                 (posts db))"

text \<open>Truthiness of an optional number and of an optional string: \<open>undefined\<close>, \<open>0\<close> and
  the empty string are falsy.\<close>

definition truthyNumber :: "int option \<Rightarrow> bool" where
  "truthyNumber v = (case v of None \<Rightarrow> False | Some n \<Rightarrow> n \<noteq> 0)"

definition truthyString :: "string option \<Rightarrow> bool" where
  "truthyString v = (case v of None \<Rightarrow> False | Some s \<Rightarrow> s \<noteq> [])"

definition getPostById :: "Store \<Rightarrow> int \<Rightarrow> int option \<Rightarrow> PostWithAuthor option" where
  "getPostById db i viewerUserId =
     (case filter (\<lambda>(p, a). id' p = i \<and> active p) (postsJoinProfiles db) of
        [] \<Rightarrow> None
      | (p, a) # _ \<Rightarrow>
          Some (withAuthor p a
                  (case viewerUserId of
                     None \<Rightarrow> False
                   | Some v \<Rightarrow>
                       if v \<noteq> 0
                       then filter (\<lambda>b. bookmark_userId b = v \<and> bookmark_postId b = i)
                                   (bookmarks db) \<noteq> []
                       else False)))"

text \<open>The filter conditions of \<open>getPosts\<close> on the columns, before the tags and the
  cursor: \<open>active\<close>, the type (\<open>POST\<close> when none is given), and each of city, user and
  parent when its option is truthy.\<close>

definition conditions :: "GetPostsOptions \<Rightarrow> Post \<Rightarrow> bool" where
  "conditions options p =
     (active p
      \<and> type p = (case opt_type options of None \<Rightarrow> POST | Some t \<Rightarrow> t)
      \<and> (truthyString (opt_city options) \<longrightarrow> Some (city p) = opt_city options)
      \<and> (truthyNumber (opt_userId options) \<longrightarrow> Some (userId p) = opt_userId options)
      \<and> (truthyNumber (opt_parentId options) \<longrightarrow> parentId p = opt_parentId options))"

text \<open>
  The tags condition, \<open>sql`${posts.tags} ?| ${tags}`\<close>, is pushed when \<open>tags\<close> is a
  non-empty array. The query builder writes a host array inside a template as a
  parenthesised list of its elements, each a parameter of its own:
  \<open>"posts"."tags" ?| ($1, ..., $n)\<close>. The operator \<open>?|\<close> of the store takes an array of
  text on its right; it is given a row of parameters (for a single tag, a text that is
  no array), and the store rejects the statement when it is executed. So a call with a
  non-empty list of tags throws, whatever the rows; a tag that is itself written as an
  array literal is not considered.
\<close>

definition tagsRejected :: "GetPostsOptions \<Rightarrow> bool" where
  "tagsRejected options = (case opt_tags options of None \<Rightarrow> False | Some ts \<Rightarrow> ts \<noteq> [])"

text \<open>A number bound to a parameter that the store compares with an integer column.\<close>

definition sqlInteger :: "int option \<Rightarrow> int option" where
  "sqlInteger v =
     (case v of
        None \<Rightarrow> None
      | Some x \<Rightarrow> if - (2 ^ 31) \<le> x \<and> x < 2 ^ 31 then Some x else None)"

text \<open>The row comparisons \<open>(col, id) < (v, i)\<close> and \<open>(col, id) > (v, i)\<close> of the store
  are lexicographic; timestamps compare by their time value, which the store counts in
  microseconds. \<open>createdAtTime\<close> is that value of the column \<open>created_at\<close>, and
  \<open>dateMicros\<close> that of a host date bound as a parameter.\<close>

definition rowLess :: "(Post \<Rightarrow> int) \<Rightarrow> int \<Rightarrow> int \<Rightarrow> Post \<Rightarrow> bool" where
  "rowLess col v i p = ((col p, id' p) < (v, i))"

definition rowGreater :: "(Post \<Rightarrow> int) \<Rightarrow> int \<Rightarrow> int \<Rightarrow> Post \<Rightarrow> bool" where
  "rowGreater col v i p = ((col p, id' p) > (v, i))"

definition createdAtTime :: "Post \<Rightarrow> int" where
  "createdAtTime p = getTime (createdAt p) * 1000 + int (createdAtMicros p)"

definition dateMicros :: "Date \<Rightarrow> int" where
  "dateMicros d = getTime d * 1000"

text \<open>The \<open>switch (sortBy)\<close> that pushes the cursor condition, given both pieces of the
  cursor. A parameter that is no value (\<open>NaN\<close>, an \<open>Invalid Date\<close>, a number outside
  the range of the integer column) makes the store reject the statement.\<close>

fun cursorCondition ::
  "DateParser \<Rightarrow> SortBy \<Rightarrow> string \<Rightarrow> string \<Rightarrow> error + (Post \<Rightarrow> bool)" where
  "cursorCondition newDate NEWEST cursorValue cursorId =
     (case (newDate cursorValue, sqlInteger (parseInt cursorId)) of
        (Some d, Some i) \<Rightarrow> Inr (rowLess createdAtTime (dateMicros d) i)
      | _ \<Rightarrow> Inl QueryError)"
| "cursorCondition newDate OLDEST cursorValue cursorId =
     (case (newDate cursorValue, sqlInteger (parseInt cursorId)) of
        (Some d, Some i) \<Rightarrow> Inr (rowGreater createdAtTime (dateMicros d) i)
      | _ \<Rightarrow> Inl QueryError)"
| "cursorCondition newDate MOST_SAVED cursorValue cursorId =
     (case (sqlInteger (parseInt cursorValue), sqlInteger (parseInt cursorId)) of
        (Some v, Some i) \<Rightarrow> Inr (rowLess bookmarkCount v i)
      | _ \<Rightarrow> Inl QueryError)"
| "cursorCondition newDate LEAST_SAVED cursorValue cursorId =
     (case (sqlInteger (parseInt cursorValue), sqlInteger (parseInt cursorId)) of
        (Some v, Some i) \<Rightarrow> Inr (rowGreater bookmarkCount v i)
      | _ \<Rightarrow> Inl QueryError)"
| "cursorCondition newDate MOST_RESPONSES cursorValue cursorId =
     (case (sqlInteger (parseInt cursorValue), sqlInteger (parseInt cursorId)) of
        (Some v, Some i) \<Rightarrow> Inr (rowLess responseCount v i)
      | _ \<Rightarrow> Inl QueryError)"
| "cursorCondition newDate LEAST_RESPONSES cursorValue cursorId =
     (case (sqlInteger (parseInt cursorValue), sqlInteger (parseInt cursorId)) of
        (Some v, Some i) \<Rightarrow> Inr (rowGreater responseCount v i)
      | _ \<Rightarrow> Inl QueryError)"

text \<open>\<open>const [cursorValue, cursorId] = cursor.split(":")\<close>: the first two pieces; the
  second is \<open>undefined\<close> when the cursor holds no colon.\<close>

definition cursorPieces :: "string \<Rightarrow> string \<times> string option" where
  "cursorPieces cursor =
     (case splitOn (CHR '':'') cursor of
        [] \<Rightarrow> ([], None)
      | [v] \<Rightarrow> (v, None)
      | v # i # _ \<Rightarrow> (v, Some i))"

text \<open>The cursor handling of \<open>getPosts\<close>: a condition is pushed only when the cursor and
  both of its pieces are truthy.\<close>

definition cursorClause ::
  "DateParser \<Rightarrow> SortBy \<Rightarrow> string option \<Rightarrow> error + (Post \<Rightarrow> bool)" where
  "cursorClause newDate sortBy cursor =
     (case cursor of
        None \<Rightarrow> Inr (\<lambda>p. True)
      | Some c \<Rightarrow>
          if c = [] then Inr (\<lambda>p. True)
          else (case cursorPieces c of
                  (cursorValue, None) \<Rightarrow> Inr (\<lambda>p. True)
                | (cursorValue, Some cursorId) \<Rightarrow>
                    if cursorValue \<noteq> [] \<and> cursorId \<noteq> []
                    then cursorCondition newDate sortBy cursorValue cursorId
                    else Inr (\<lambda>p. True)))"

text \<open>\<open>orderBy(asc(col), asc(posts.id))\<close> and \<open>orderBy(desc(col), desc(posts.id))\<close>. The
  descending order is the ascending one reversed; the two differ at most in the order
  of rows that agree on both columns, which the store leaves open.\<close>

definition rowKey :: "(Post \<Rightarrow> int) \<Rightarrow> Post \<times> Author \<Rightarrow> int \<times> int" where
  "rowKey col r = (col (fst r), id' (fst r))"

definition ascending :: "(Post \<Rightarrow> int) \<Rightarrow> (Post \<times> Author) list \<Rightarrow> (Post \<times> Author) list" where
  "ascending col rows = sort_key (rowKey col) rows"

definition descending :: "(Post \<Rightarrow> int) \<Rightarrow> (Post \<times> Author) list \<Rightarrow> (Post \<times> Author) list" where
  "descending col rows = rev (sort_key (rowKey col) rows)"

fun orderBy :: "SortBy \<Rightarrow> (Post \<times> Author) list \<Rightarrow> (Post \<times> Author) list" where
  "orderBy OLDEST rows = ascending createdAtTime rows"
| "orderBy MOST_SAVED rows = descending bookmarkCount rows"
| "orderBy LEAST_SAVED rows = ascending bookmarkCount rows"
| "orderBy MOST_RESPONSES rows = descending responseCount rows"
| "orderBy LEAST_RESPONSES rows = ascending responseCount rows"
| "orderBy NEWEST rows = descending createdAtTime rows"

text \<open>The \<open>switch (sortBy)\<close> that writes the next cursor from the last post of the
  page.\<close>

fun cursorFor :: "SortBy \<Rightarrow> Post \<Rightarrow> string" where
  "cursorFor NEWEST lastPost =
     toISOString (createdAt lastPost) @ '':'' @ numberToString (id' lastPost)"
| "cursorFor OLDEST lastPost =
     toISOString (createdAt lastPost) @ '':'' @ numberToString (id' lastPost)"
| "cursorFor MOST_SAVED lastPost =
     numberToString (bookmarkCount lastPost) @ '':'' @ numberToString (id' lastPost)"
| "cursorFor LEAST_SAVED lastPost =
     numberToString (bookmarkCount lastPost) @ '':'' @ numberToString (id' lastPost)"
| "cursorFor MOST_RESPONSES lastPost =
     numberToString (responseCount lastPost) @ '':'' @ numberToString (id' lastPost)"
| "cursorFor LEAST_RESPONSES lastPost =
     numberToString (responseCount lastPost) @ '':'' @ numberToString (id' lastPost)"

definition sortByOf :: "GetPostsOptions \<Rightarrow> SortBy" where
  "sortByOf options = (case opt_sortBy options of None \<Rightarrow> NEWEST | Some s \<Rightarrow> s)"

definition limitOf :: "GetPostsOptions \<Rightarrow> nat" where
  "limitOf options = (case opt_limit options of None \<Rightarrow> 20 | Some n \<Rightarrow> n)"

text \<open>The rows the query of \<open>getPosts\<close> returns: \<open>where(and(...conditions))\<close>,
  \<open>orderBy\<close>, \<open>limit(limit + 1)\<close>.\<close>

definition selectPosts ::
  "Store \<Rightarrow> GetPostsOptions \<Rightarrow> (Post \<Rightarrow> bool) \<Rightarrow> (Post \<times> Author) list" where
  "selectPosts db options cursorCond =
     take (limitOf options + 1)
       (orderBy (sortByOf options)
          (filter (\<lambda>r. conditions options (fst r) \<and> cursorCond (fst r))
                  (postsJoinProfiles db)))"

text \<open>The viewer's bookmarks among the posts of the page: one query, skipped when there
  is no viewer or the page is empty.\<close>

definition bookmarkedPostIds :: "Store \<Rightarrow> int option \<Rightarrow> (Post \<times> Author) list \<Rightarrow> int set" where
  "bookmarkedPostIds db viewerUserId postsData =
     (case viewerUserId of
        None \<Rightarrow> {}
      | Some v \<Rightarrow>
          if v \<noteq> 0 \<and> postsData \<noteq> []
          then set (map bookmark_postId
                      (filter (\<lambda>b. bookmark_userId b = v
                                    \<and> bookmark_postId b \<in> set (map (\<lambda>r. id' (fst r)) postsData))
                              (bookmarks db)))
          else {})"

text \<open>\<open>getPosts\<close>. The conditions are collected first and the query is executed once:
  it throws when the tags condition or the cursor condition is one the store rejects.\<close>

definition getPosts :: "DateParser \<Rightarrow> Store \<Rightarrow> GetPostsOptions \<Rightarrow> error + PostsPage" where
  "getPosts newDate db options =
     (if tagsRejected options then Inl QueryError
      else
        (case cursorClause newDate (sortByOf options) (opt_cursor options) of
           Inl e \<Rightarrow> Inl e
         | Inr cursorCond \<Rightarrow>
             (let results = selectPosts db options cursorCond;
                  more = (length results > limitOf options);
                  postsData = take (limitOf options) results;
                  marked = bookmarkedPostIds db (opt_viewerUserId options) postsData
              in Inr \<lparr>page_posts =
                         map (\<lambda>r. withAuthor (fst r) (snd r) (id' (fst r) \<in> marked))
                             postsData,
                       hasMore = more,
                       nextCursor =
                         (if more \<and> postsData \<noteq> []
                          then Some (cursorFor (sortByOf options) (fst (last postsData)))
                          else None)\<rparr>)))"


section \<open>Writing posts\<close>

text \<open>
  Modelled from the spec: \<open>withTransaction\<close>, whose file (\<open>db/shared\<close>) is not among the
  sources. The spec describes it as a scoped transaction: begin, run the body, commit
  on success, roll back on any thrown error. The body works on the transaction's view
  of the store; when it throws, the view it had reached is dropped and the store stays
  as it was.
\<close>

definition withTransaction ::
  "Store \<Rightarrow> (Store \<Rightarrow> (error \<times> Store) + ('a \<times> Store)) \<Rightarrow> (error + 'a) \<times> Store" where
  "withTransaction db body =
     (case body db of
        Inl (e, tx) \<Rightarrow> (Inl e, db)
      | Inr (v, tx) \<Rightarrow> (Inr v, tx))"

text \<open>The values of an insert into \<open>posts\<close> (\<open>NewPost\<close>), as the two creating functions
  fill them.\<close>

record NewPost =
  new_userId :: int
  new_type :: PostType
  new_parentId :: "int option"
  new_audioUrl :: string
  new_audioKey :: string
  new_duration :: int
  new_tags :: "string list"
  new_city :: string

text \<open>\<open>insert(posts).values(v).returning()\<close>: the id comes from the sequence, the other
  columns the insert leaves out take the defaults of the schema. \<open>now\<close> is the clock
  of the store; the row that \<open>returning()\<close> hands to the host shows it cut to the
  millisecond.
  The foreign keys of the table are not modelled: the resolvers pass the id of an
  existing user.\<close>

definition insertPost :: "Timestamp \<Rightarrow> NewPost \<Rightarrow> Store \<Rightarrow> Post \<times> Store" where
  "insertPost now v db =
     (let row = \<lparr>id' = posts_id_seq db, userId = new_userId v, type = new_type v,
                 parentId = new_parentId v, audioUrl = new_audioUrl v,
                 audioKey = new_audioKey v, duration = new_duration v,
                 tags = new_tags v, waveformUrl = None, responseCount = 0,
                 bookmarkCount = 0, city = new_city v, active = True,
                 status = AWAITING_PROCESSING, createdAt = ts_date now,
                 createdAtMicros = ts_micros now, updatedAt = ts_date now\<rparr>
      in (row, db\<lparr>posts := posts db @ [row], posts_id_seq := posts_id_seq db + 1\<rparr>))"

text \<open>\<open>update(posts).set(...).where(eq(posts.id, i))\<close>.\<close>

definition updatePost :: "int \<Rightarrow> (Post \<Rightarrow> Post) \<Rightarrow> Store \<Rightarrow> Store" where
  "updatePost i f db = db\<lparr>posts := map (\<lambda>p. if id' p = i then f p else p) (posts db)\<rparr>"

record CreatePostData =
  cp_userId :: int
  cp_audioUrl :: string
  cp_audioKey :: string
  cp_duration :: int
  cp_tags :: "string list option"
  cp_city :: "string option"

definition createPost :: "Timestamp \<Rightarrow> Store \<Rightarrow> CreatePostData \<Rightarrow> Post \<times> Store" where
  "createPost now db data =
     insertPost now
       \<lparr>new_userId = cp_userId data, new_type = POST, new_parentId = None,
        new_audioUrl = cp_audioUrl data, new_audioKey = cp_audioKey data,
        new_duration = cp_duration data,
        new_tags = (case cp_tags data of None \<Rightarrow> [] | Some ts \<Rightarrow> ts),
        new_city = (case cp_city data of
                      None \<Rightarrow> ''singapore''
                    | Some c \<Rightarrow> if c \<noteq> [] then c else ''singapore'')\<rparr>
       db"

record CreateResponseData =
  cr_userId :: int
  cr_parentId :: int
  cr_audioUrl :: string
  cr_audioKey :: string
  cr_duration :: int
  cr_tags :: "string list option"

text \<open>The select that \<open>createResponse\<close> and \<open>deletePost\<close> start with:
  \<open>where(and(eq(posts.id, i), eq(posts.active, true))).limit(1)\<close>.\<close>

definition selectActivePost :: "Store \<Rightarrow> int \<Rightarrow> Post option" where
  "selectActivePost db i =
     (case filter (\<lambda>p. id' p = i \<and> active p) (posts db) of
        [] \<Rightarrow> None
      | p # _ \<Rightarrow> Some p)"

text \<open>The body of the transaction of \<open>createResponse\<close>. On a throw it returns the view
  of the store it had reached. One clock is read for the whole call: the \<open>new Date()\<close>
  of the counter update is \<open>ts_date now\<close>.\<close>

definition createResponseBody ::
  "Timestamp \<Rightarrow> CreateResponseData \<Rightarrow> Store \<Rightarrow> (error \<times> Store) + (Post \<times> Store)" where
  "createResponseBody now data tx =
     (case selectActivePost tx (cr_parentId data) of
        None \<Rightarrow> Inl (Error ''Parent post not found'', tx)
      | Some parentPost \<Rightarrow>
          (let newResponse =
                 \<lparr>new_userId = cr_userId data, new_type = RESPONSE,
                  new_parentId = Some (cr_parentId data),
                  new_audioUrl = cr_audioUrl data, new_audioKey = cr_audioKey data,
                  new_duration = cr_duration data,
                  new_tags = (case cr_tags data of None \<Rightarrow> [] | Some ts \<Rightarrow> ts),
                  new_city = city parentPost\<rparr>;
               inserted = insertPost now newResponse tx;
               response = fst inserted;
               tx1 = updatePost (cr_parentId data)
                       (\<lambda>p. p\<lparr>responseCount := responseCount p + 1,
                                updatedAt := ts_date now\<rparr>)
                       (snd inserted);
               tx2 = (if userId parentPost \<noteq> cr_userId data
                      then tx1\<lparr>notifications := notifications tx1 @
                                 [\<lparr>notification_userId = userId parentPost,
                                   data_postId = cr_parentId data,
                                   data_responseId = id' response,
                                   data_responderId = cr_userId data\<rparr>]\<rparr>
                      else tx1)
           in Inr (response, tx2)))"

definition createResponse ::
  "Timestamp \<Rightarrow> Store \<Rightarrow> CreateResponseData \<Rightarrow> (error + Post) \<times> Store" where
  "createResponse now db data = withTransaction db (createResponseBody now data)"

text \<open>The body of the transaction of \<open>deletePost\<close>. The decrement is
  \<open>GREATEST(response_count - 1, 0)\<close>.\<close>

definition deletePostBody ::
  "Date \<Rightarrow> int \<Rightarrow> int \<Rightarrow> Store \<Rightarrow> (error \<times> Store) + (bool \<times> Store)" where
  "deletePostBody now postId uid tx =
     (case selectActivePost tx postId of
        None \<Rightarrow> Inr (False, tx)
      | Some post \<Rightarrow>
          if userId post \<noteq> uid
          then Inl (Error ''Not authorized to delete this post'', tx)
          else
            (let tx1 = updatePost postId (\<lambda>p. p\<lparr>active := False, updatedAt := now\<rparr>) tx;
                 tx2 = (case parentId post of
                          None \<Rightarrow> tx1
                        | Some parent \<Rightarrow>
                            if parent \<noteq> 0
                            then updatePost parent
                                   (\<lambda>p. p\<lparr>responseCount := max (responseCount p - 1) 0,
                                           updatedAt := now\<rparr>)
                                   tx1
                            else tx1)
             in Inr (True, tx2)))"

definition deletePost :: "Date \<Rightarrow> Store \<Rightarrow> int \<Rightarrow> int \<Rightarrow> (error + bool) \<times> Store" where
  "deletePost now db postId uid = withTransaction db (deletePostBody now postId uid)"

definition updatePostWaveformUrl :: "Date \<Rightarrow> Store \<Rightarrow> int \<Rightarrow> string \<Rightarrow> Store" where
  "updatePostWaveformUrl now db postId url =
     updatePost postId (\<lambda>p. p\<lparr>waveformUrl := Some url, updatedAt := now\<rparr>) db"

definition updatePostStatus :: "Date \<Rightarrow> Store \<Rightarrow> int \<Rightarrow> PostStatus \<Rightarrow> Store" where
  "updatePostStatus now db postId st =
     updatePost postId (\<lambda>p. p\<lparr>status := st, updatedAt := now\<rparr>) db"

text \<open>
  Modelled from the spec: \<open>addBookmark\<close> and \<open>removeBookmark\<close>, whose file
  (\<open>db/bookmarks\<close>) is not among the sources. The spec: bookmarking inserts a Bookmark
  row, fails with Conflict if the pair of user and post already exists, and on success
  increments the post's \<open>bookmarkCount\<close>; removing deletes the matching row if present
  and decrements \<open>bookmarkCount\<close>, clamped at zero, and reports that nothing was found
  if no such bookmark exists.
\<close>

definition addBookmark :: "Store \<Rightarrow> int \<Rightarrow> int \<Rightarrow> (error + unit) \<times> Store" where
  "addBookmark db uid postId =
     (if \<exists>b \<in> set (bookmarks db). bookmark_userId b = uid \<and> bookmark_postId b = postId
      then (Inl (Error ''Conflict''), db)
      else (Inr (),
            updatePost postId (\<lambda>p. p\<lparr>bookmarkCount := bookmarkCount p + 1\<rparr>)
              (db\<lparr>bookmarks := bookmarks db @
                     [\<lparr>bookmark_userId = uid, bookmark_postId = postId\<rparr>]\<rparr>)))"

definition removeBookmark :: "Store \<Rightarrow> int \<Rightarrow> int \<Rightarrow> bool \<times> Store" where
  "removeBookmark db uid postId =
     (if \<exists>b \<in> set (bookmarks db). bookmark_userId b = uid \<and> bookmark_postId b = postId
      then (True,
            updatePost postId (\<lambda>p. p\<lparr>bookmarkCount := max (bookmarkCount p - 1) 0\<rparr>)
              (db\<lparr>bookmarks :=
                     filter (\<lambda>b. \<not> (bookmark_userId b = uid \<and> bookmark_postId b = postId))
                            (bookmarks db)\<rparr>))
      else (False, db))"

section \<open>The resolvers\<close>

text \<open>The resolvers are modelled from the point where \<open>getAuthenticatedUser\<close> has returned
  the caller; \<open>uid\<close> is the caller's id.\<close>

datatype GraphQLErrorCode = UNAUTHORIZED | NOT_FOUND | DATABASE_ERROR | INVALID_INPUT

datatype GraphQLError = GraphQLError string GraphQLErrorCode

record GqlUserProfile =
  gql_profile_id :: int
  gql_profile_userId :: int
  gql_username :: string
  gql_ageRange :: "string option"
  gql_occupation :: "string option"
  gql_profile_city :: string
  gql_profile_createdAt :: Date

record PostSummary =
  gql_id :: int
  gql_userId :: int
  gql_author :: GqlUserProfile
  gql_type :: PostType
  gql_status :: PostStatus
  gql_parentId :: "int option"
  gql_duration :: int
  gql_tags :: "string list"
  gql_waveformUrl :: "string option"
  gql_responseCount :: int
  gql_bookmarkCount :: int
  gql_isBookmarked :: bool
  gql_createdAt :: Date

record PostFull = PostSummary +
  gql_audioUrl :: "string option"
  gql_city :: string

record PostsConnection =
  conn_posts :: "PostSummary list"
  conn_hasMore :: bool
  conn_nextCursor :: "string option"

definition mapPostToSummary :: "PostWithAuthor \<Rightarrow> PostSummary" where
  "mapPostToSummary post =
     (let isDeleted = (status post = DELETED)
      in \<lparr>gql_id = id' post,
          gql_userId = userId post,
          gql_author =
            \<lparr>gql_profile_id = author_id (author post),
             gql_profile_userId = author_userId (author post),
             gql_username = author_username (author post),
             gql_ageRange = None,
             gql_occupation = None,
             gql_profile_city = author_city (author post),
             gql_profile_createdAt = createdAt post\<rparr>,
          gql_type = type post,
          gql_status = status post,
          gql_parentId = (if truthyNumber (parentId post) then parentId post else None),
          gql_duration = duration post,
          gql_tags = tags post,
          gql_waveformUrl =
            (if isDeleted then None
             else if truthyString (waveformUrl post) then waveformUrl post else None),
          gql_responseCount = responseCount post,
          gql_bookmarkCount = bookmarkCount post,
          gql_isBookmarked = isBookmarked post,
          gql_createdAt = createdAt post\<rparr>)"

definition mapPostToFull :: "PostWithAuthor \<Rightarrow> PostFull" where
  "mapPostToFull post =
     (let isDeleted = (status post = DELETED)
      in PostSummary.extend (mapPostToSummary post)
           (PostFull.fields (if isDeleted then None else Some (audioUrl post)) (city post)))"

text \<open>What the listing resolvers do with the result of \<open>getPosts\<close>: map every row to its
  summary, and wrap an exception into a \<open>GraphQLError\<close> with the resolver's message.\<close>

definition postsConnection :: "string \<Rightarrow> error + PostsPage \<Rightarrow> GraphQLError + PostsConnection" where
  "postsConnection msg r =
     (case r of
        Inl e \<Rightarrow> Inl (GraphQLError msg DATABASE_ERROR)
      | Inr result \<Rightarrow>
          Inr \<lparr>conn_posts = map mapPostToSummary (page_posts result),
               conn_hasMore = hasMore result,
               conn_nextCursor =
                 (if truthyString (nextCursor result) then nextCursor result else None)\<rparr>)"

definition orUndefined :: "string option \<Rightarrow> string option" where
  "orUndefined v = (if truthyString v then v else None)"

definition limitOr20 :: "nat option \<Rightarrow> nat option" where
  "limitOr20 l = (case l of None \<Rightarrow> Some 20 | Some n \<Rightarrow> if n = 0 then Some 20 else Some n)"

definition Query_getPosts ::
  "DateParser \<Rightarrow> Store \<Rightarrow> int \<Rightarrow> string option \<Rightarrow> string list option \<Rightarrow> string option \<Rightarrow> nat option
   \<Rightarrow> GraphQLError + PostsConnection" where
  "Query_getPosts newDate db uid cty tgs cur lim =
     postsConnection ''Failed to get posts''
       (getPosts newDate db
          \<lparr>opt_city = orUndefined cty, opt_tags = tgs, opt_type = Some POST,
           opt_userId = None, opt_parentId = None, opt_sortBy = None,
           opt_cursor = orUndefined cur, opt_limit = limitOr20 lim,
           opt_viewerUserId = Some uid\<rparr>)"

definition Query_getMyPosts ::
  "DateParser \<Rightarrow> Store \<Rightarrow> int \<Rightarrow> PostType option \<Rightarrow> SortBy option \<Rightarrow> string option \<Rightarrow> nat option
   \<Rightarrow> GraphQLError + PostsConnection" where
  "Query_getMyPosts newDate db uid ty sb cur lim =
     postsConnection ''Failed to get posts''
       (getPosts newDate db
          \<lparr>opt_city = None, opt_tags = None, opt_type = ty,
           opt_userId = Some uid, opt_parentId = None,
           opt_sortBy = Some (case sb of None \<Rightarrow> NEWEST | Some s \<Rightarrow> s),
           opt_cursor = orUndefined cur, opt_limit = limitOr20 lim,
           opt_viewerUserId = Some uid\<rparr>)"

definition Query_getUserPosts ::
  "DateParser \<Rightarrow> Store \<Rightarrow> int \<Rightarrow> int \<Rightarrow> PostType option \<Rightarrow> SortBy option \<Rightarrow> string option \<Rightarrow> nat option
   \<Rightarrow> GraphQLError + PostsConnection" where
  "Query_getUserPosts newDate db uid target ty sb cur lim =
     postsConnection ''Failed to get posts''
       (getPosts newDate db
          \<lparr>opt_city = None, opt_tags = None, opt_type = ty,
           opt_userId = Some target, opt_parentId = None,
           opt_sortBy = Some (case sb of None \<Rightarrow> NEWEST | Some s \<Rightarrow> s),
           opt_cursor = orUndefined cur, opt_limit = limitOr20 lim,
           opt_viewerUserId = Some uid\<rparr>)"

definition Query_getResponses ::
  "DateParser \<Rightarrow> Store \<Rightarrow> int \<Rightarrow> int \<Rightarrow> SortBy option \<Rightarrow> string option \<Rightarrow> nat option
   \<Rightarrow> GraphQLError + PostsConnection" where
  "Query_getResponses newDate db uid postId sb cur lim =
     postsConnection ''Failed to get responses''
       (getPosts newDate db
          \<lparr>opt_city = None, opt_tags = None, opt_type = Some RESPONSE,
           opt_userId = None, opt_parentId = Some postId,
           opt_sortBy = Some (case sb of None \<Rightarrow> NEWEST | Some s \<Rightarrow> s),
           opt_cursor = orUndefined cur, opt_limit = limitOr20 lim,
           opt_viewerUserId = Some uid\<rparr>)"

definition Query_getPostById :: "Store \<Rightarrow> int \<Rightarrow> int \<Rightarrow> PostFull option" where
  "Query_getPostById db uid i =
     (case getPostById db i (Some uid) of
        None \<Rightarrow> None
      | Some post \<Rightarrow> Some (mapPostToFull post))"

text \<open>The resolver of \<open>deletePost\<close>: \<open>false\<close> becomes \<open>NOT_FOUND\<close>, and an \<open>Error\<close> is
  passed on with its own message under \<open>DATABASE_ERROR\<close>. \<open>deletePost\<close> binds no
  parameter the store could reject, so the second branch is never taken.\<close>

definition Mutation_deletePost ::
  "Date \<Rightarrow> Store \<Rightarrow> int \<Rightarrow> int \<Rightarrow> (GraphQLError + bool) \<times> Store" where
  "Mutation_deletePost now db uid i =
     (case deletePost now db i uid of
        (Inl (Error msg), db') \<Rightarrow> (Inl (GraphQLError msg DATABASE_ERROR), db')
      | (Inl QueryError, db') \<Rightarrow>
          (Inl (GraphQLError ''Failed to delete post'' DATABASE_ERROR), db')
      | (Inr success, db') \<Rightarrow>
          if \<not> success then (Inl (GraphQLError ''Post not found'' NOT_FOUND), db')
          else (Inr True, db'))"


section \<open>The pagination engine as the spec describes it\<close>

text \<open>
  The spec describes the engine by a table of strategies: each sort order has a key
  column and a direction, and the id breaks ties. The definitions of this section
  follow that description; the lemmas further down compare them with the three
  \<open>switch (sortBy)\<close> statements of \<open>getPosts\<close>.
\<close>

fun sortColumn :: "SortBy \<Rightarrow> Post \<Rightarrow> int" where
  "sortColumn NEWEST = createdAtTime"
| "sortColumn OLDEST = createdAtTime"
| "sortColumn MOST_SAVED = bookmarkCount"
| "sortColumn LEAST_SAVED = bookmarkCount"
| "sortColumn MOST_RESPONSES = responseCount"
| "sortColumn LEAST_RESPONSES = responseCount"

fun sortAscending :: "SortBy \<Rightarrow> bool" where
  "sortAscending NEWEST = False"
| "sortAscending OLDEST = True"
| "sortAscending MOST_SAVED = False"
| "sortAscending LEAST_SAVED = True"
| "sortAscending MOST_RESPONSES = False"
| "sortAscending LEAST_RESPONSES = True"

text \<open>The compound key (key value, id) of a post under a strategy.\<close>

definition sortKey :: "SortBy \<Rightarrow> Post \<Rightarrow> int \<times> int" where
  "sortKey sb p = (sortColumn sb p, id' p)"


text \<open>\<open>p\<close> is strictly beyond the point \<open>k\<close> in the declared order.\<close>

definition strictlyAfter :: "SortBy \<Rightarrow> int \<times> int \<Rightarrow> Post \<Rightarrow> bool" where
  "strictlyAfter sb k p = (if sortAscending sb then k < sortKey sb p else sortKey sb p < k)"


text \<open>The key value a cursor's first piece is read as.\<close>

fun cursorValue :: "DateParser \<Rightarrow> SortBy \<Rightarrow> string \<Rightarrow> int option" where
  "cursorValue newDate NEWEST s = map_option dateMicros (newDate s)"
| "cursorValue newDate OLDEST s = map_option dateMicros (newDate s)"
| "cursorValue newDate MOST_SAVED s = sqlInteger (parseInt s)"
| "cursorValue newDate LEAST_SAVED s = sqlInteger (parseInt s)"
| "cursorValue newDate MOST_RESPONSES s = sqlInteger (parseInt s)"
| "cursorValue newDate LEAST_RESPONSES s = sqlInteger (parseInt s)"

text \<open>The point a cursor stands for: none when there is no cursor or a piece of it is
  missing, an error when both pieces are there and one of them is not a value.\<close>

definition decodeCursor ::
  "DateParser \<Rightarrow> SortBy \<Rightarrow> string option \<Rightarrow> error + (int \<times> int) option" where
  "decodeCursor newDate sb cursor =
     (case cursor of
        None \<Rightarrow> Inr None
      | Some c \<Rightarrow>
          (case cursorPieces c of
             (cv, None) \<Rightarrow> Inr None
           | (cv, Some ci) \<Rightarrow>
               if c = [] \<or> cv = [] \<or> ci = [] then Inr None
               else (case (cursorValue newDate sb cv, sqlInteger (parseInt ci)) of
                       (Some v, Some i) \<Rightarrow> Inr (Some (v, i))
                     | _ \<Rightarrow> Inl QueryError)))"

text \<open>The rows a page is cut from: those that pass the filter and lie strictly beyond the
  cursor's point.\<close>

definition candidateRows ::
  "Store \<Rightarrow> GetPostsOptions \<Rightarrow> (int \<times> int) option \<Rightarrow> (Post \<times> Author) list" where
  "candidateRows db options k =
     filter (\<lambda>r. conditions options (fst r)
                 \<and> (case k of None \<Rightarrow> True
                     | Some c \<Rightarrow> strictlyAfter (sortByOf options) c (fst r)))
            (postsJoinProfiles db)"

text \<open>The result of \<open>getPosts\<close> as a function of the rows its query returned.\<close>

definition pageOf :: "Store \<Rightarrow> GetPostsOptions \<Rightarrow> (Post \<times> Author) list \<Rightarrow> PostsPage" where
  "pageOf db options fetched =
     \<lparr>page_posts =
        map (\<lambda>r. withAuthor (fst r) (snd r)
                   (id' (fst r) \<in> bookmarkedPostIds db (opt_viewerUserId options)
                                     (take (limitOf options) fetched)))
            (take (limitOf options) fetched),
      hasMore = (limitOf options < length fetched),
      nextCursor =
        (if limitOf options < length fetched \<and> take (limitOf options) fetched \<noteq> []
         then Some (cursorFor (sortByOf options) (fst (last (take (limitOf options) fetched))))
         else None)\<rparr>"








section \<open>Reachable stores and sample data\<close>

definition emptyStore :: Store where
  "emptyStore = \<lparr>posts = [], userProfiles = [], bookmarks = [], notifications = [],
                  posts_id_seq = 1\<rparr>"

text \<open>The stores the operations of the layer lead to from the empty one. Profiles are
  written by another layer, so any change of that table is a step.\<close>

inductive reachable :: "Store \<Rightarrow> bool" where
  initial: "reachable emptyStore"
| profiles: "reachable db \<Longrightarrow> reachable (db\<lparr>userProfiles := us\<rparr>)"
| createPost: "reachable db \<Longrightarrow> reachable (snd (createPost now db cp))"
| createResponse: "reachable db \<Longrightarrow> reachable (snd (createResponse now db cr))"
| deletePost: "reachable db \<Longrightarrow> reachable (snd (deletePost now db postId uid))"
| updatePostWaveformUrl: "reachable db \<Longrightarrow> reachable (updatePostWaveformUrl now db postId url)"
| updatePostStatus: "reachable db \<Longrightarrow> reachable (updatePostStatus now db postId st)"
| addBookmark: "reachable db \<Longrightarrow> reachable (snd (addBookmark db uid postId))"
| removeBookmark: "reachable db \<Longrightarrow> reachable (snd (removeBookmark db uid postId))"

definition countersNonNegative :: "Store \<Rightarrow> bool" where
  "countersNonNegative db =
     list_all (\<lambda>p. 0 \<le> responseCount p \<and> 0 \<le> bookmarkCount p) (posts db)"

text \<open>The fields a summary shares with the stored post, compared one by one.\<close>

definition summaryPassesThrough :: "PostSummary \<Rightarrow> Post \<Rightarrow> bool" where
  "summaryPassesThrough s p =
     (gql_id s = id' p \<and> gql_userId s = userId p \<and> gql_type s = type p
      \<and> gql_status s = status p \<and> gql_parentId s = parentId p
      \<and> gql_duration s = duration p \<and> gql_tags s = tags p
      \<and> gql_responseCount s = responseCount p \<and> gql_bookmarkCount s = bookmarkCount p
      \<and> gql_createdAt s = createdAt p)"

definition sampleDate :: Date where
  "sampleDate = \<lparr>utcFullYear = 2024, utcMonth = 1, utcDate = 1, utcHours = 0,
                  utcMinutes = 0, utcSeconds = 0, utcMilliseconds = 0\<rparr>"

definition sampleNow :: Timestamp where
  "sampleNow = \<lparr>ts_date = sampleDate, ts_micros = 250\<rparr>"

definition samplePost :: "int \<Rightarrow> int \<Rightarrow> Post" where
  "samplePost i u =
     \<lparr>id' = i, userId = u, type = POST, parentId = None,
      audioUrl = ''https://cdn/a.webm'', audioKey = ''a.webm'', duration = 30,
      tags = [''x''], waveformUrl = Some ''https://cdn/a.json'', responseCount = 0,
      bookmarkCount = 0, city = ''tokyo'', active = True, status = PROCESSED,
      createdAt = sampleDate, createdAtMicros = 0, updatedAt = sampleDate\<rparr>"

definition sampleProfile :: "int \<Rightarrow> UserProfile" where
  "sampleProfile u =
     \<lparr>profile_id = u, profile_userId = u, profile_username = ''user'',
      profile_city = ''singapore''\<rparr>"

text \<open>A store with a post of user 7 that user 8 has bookmarked and answered twice (one
  answer already deleted), and a post whose content status is \<open>DELETED\<close>.\<close>

definition sampleStore :: Store where
  "sampleStore =
     \<lparr>posts = [(samplePost 1 7)\<lparr>bookmarkCount := 1, responseCount := 1\<rparr>,
               (samplePost 2 8)\<lparr>type := RESPONSE, parentId := Some 1\<rparr>,
               (samplePost 3 8)\<lparr>type := RESPONSE, parentId := Some 1, active := False\<rparr>,
               (samplePost 4 7)\<lparr>status := DELETED\<rparr>],
      userProfiles = [sampleProfile 7, sampleProfile 8],
      bookmarks = [\<lparr>bookmark_userId = 8, bookmark_postId = 1\<rparr>],
      notifications = [],
      posts_id_seq = 5\<rparr>"

definition noOptions :: GetPostsOptions where
  "noOptions =
     \<lparr>opt_city = None, opt_tags = None, opt_type = None, opt_userId = None,
      opt_parentId = None, opt_sortBy = None, opt_cursor = None, opt_limit = None,
      opt_viewerUserId = None\<rparr>"


definition sampleResponse :: "int \<Rightarrow> CreateResponseData" where
  "sampleResponse parent =
     \<lparr>cr_userId = 8, cr_parentId = parent, cr_audioUrl = ''https://cdn/r.webm'',
      cr_audioKey = ''r.webm'', cr_duration = 10, cr_tags = None\<rparr>"

text \<open>The scenario of the spec: a post, a response to it, and the response deleted.\<close>

definition scenarioStore :: Store where
  "scenarioStore =
     snd (deletePost sampleDate
            (snd (createResponse sampleNow
                    (snd (createPost sampleNow emptyStore
                            \<lparr>cp_userId = 7, cp_audioUrl = ''https://cdn/a.webm'',
                             cp_audioKey = ''a.webm'', cp_duration = 30,
                             cp_tags = Some [''x''], cp_city = None\<rparr>))
                    (sampleResponse 1)))
            2 8)"

text \<open>The scenario of the spec: five posts with bookmark counts 5, 4, 3, 2, 1, listed by
  \<open>MOST_SAVED\<close> with page size 2. And the same posts when their author has no profile.\<close>

definition fiveStore :: Store where
  "fiveStore =
     \<lparr>posts = [(samplePost 1 7)\<lparr>bookmarkCount := 5\<rparr>, (samplePost 2 7)\<lparr>bookmarkCount := 4\<rparr>,
               (samplePost 3 7)\<lparr>bookmarkCount := 3\<rparr>, (samplePost 4 7)\<lparr>bookmarkCount := 2\<rparr>,
               (samplePost 5 7)\<lparr>bookmarkCount := 1\<rparr>],
      userProfiles = [sampleProfile 7],
      bookmarks = [],
      notifications = [],
      posts_id_seq = 6\<rparr>"

definition fiveOptions :: GetPostsOptions where
  "fiveOptions = noOptions\<lparr>opt_sortBy := Some MOST_SAVED, opt_limit := Some 2\<rparr>"


section \<open>Projections and selections\<close>

lemma isBookmarked_withAuthor [simp]: "isBookmarked (withAuthor p a b) = b"
  by (simp add: withAuthor_def Post.defs PostWithAuthor.defs)

lemma author_withAuthor [simp]: "author (withAuthor p a b) = a"
  by (simp add: withAuthor_def Post.defs PostWithAuthor.defs)

lemma fields_withAuthor [simp]:
  "id' (withAuthor p a b) = id' p" "userId (withAuthor p a b) = userId p"
  "type (withAuthor p a b) = type p" "parentId (withAuthor p a b) = parentId p"
  "audioUrl (withAuthor p a b) = audioUrl p" "audioKey (withAuthor p a b) = audioKey p"
  "duration (withAuthor p a b) = duration p" "tags (withAuthor p a b) = tags p"
  "waveformUrl (withAuthor p a b) = waveformUrl p"
  "responseCount (withAuthor p a b) = responseCount p"
  "bookmarkCount (withAuthor p a b) = bookmarkCount p" "city (withAuthor p a b) = city p"
  "active (withAuthor p a b) = active p" "status (withAuthor p a b) = status p"
  "createdAt (withAuthor p a b) = createdAt p" "updatedAt (withAuthor p a b) = updatedAt p"
  by (simp_all add: withAuthor_def Post.defs PostWithAuthor.defs)

lemma postsJoinProfiles_bookmarks [simp]:
  "postsJoinProfiles (db\<lparr>bookmarks := bs\<rparr>) = postsJoinProfiles db"
  by (simp add: postsJoinProfiles_def)

lemma selectPosts_bookmarks [simp]:
  "selectPosts (db\<lparr>bookmarks := bs\<rparr>) options c = selectPosts db options c"
  by (simp add: selectPosts_def)

lemma conditions_type_default:
  "opt_type options = None \<Longrightarrow> conditions (options\<lparr>opt_type := Some POST\<rparr>) = conditions options"
  by (rule ext) (simp add: conditions_def)

lemma in_selectPosts_conditions:
  "r \<in> set (selectPosts db options c) \<Longrightarrow> conditions options (fst r) \<and> c (fst r)"
proof -
  assume "r \<in> set (selectPosts db options c)"
  then have "r \<in> set (orderBy (sortByOf options)
          (filter (\<lambda>r. conditions options (fst r) \<and> c (fst r)) (postsJoinProfiles db)))"
    unfolding selectPosts_def by (rule in_set_takeD)
  then show ?thesis
    by (cases "sortByOf options") (auto simp: ascending_def descending_def)
qed

lemma page_posts_from_selectPosts:
  assumes "getPosts newDate db options = Inr page" and "post \<in> set (page_posts page)"
  shows "\<exists>c r. cursorClause newDate (sortByOf options) (opt_cursor options) = Inr c
           \<and> r \<in> set (selectPosts db options c)
           \<and> post = withAuthor (fst r) (snd r) (isBookmarked post)"
proof (cases "cursorClause newDate (sortByOf options) (opt_cursor options)")
  case (Inl e)
  with assms(1) show ?thesis by (simp add: getPosts_def split: if_splits)
next
  case (Inr c)
  with assms(1) have "page_posts page =
      map (\<lambda>r. withAuthor (fst r) (snd r)
                 (id' (fst r) \<in> bookmarkedPostIds db (opt_viewerUserId options)
                                  (take (limitOf options) (selectPosts db options c))))
          (take (limitOf options) (selectPosts db options c))"
    by (auto simp: getPosts_def Let_def split: if_splits)
  with assms(2) obtain r where r: "r \<in> set (take (limitOf options) (selectPosts db options c))"
    and p: "post = withAuthor (fst r) (snd r)
                 (id' (fst r) \<in> bookmarkedPostIds db (opt_viewerUserId options)
                                  (take (limitOf options) (selectPosts db options c)))"
    by auto
  from p have "isBookmarked post = (id' (fst r) \<in> bookmarkedPostIds db (opt_viewerUserId options)
                                  (take (limitOf options) (selectPosts db options c)))"
    by simp
  with p have "post = withAuthor (fst r) (snd r) (isBookmarked post)" by simp
  moreover from r have "r \<in> set (selectPosts db options c)" by (rule in_set_takeD)
  ultimately show ?thesis using Inr by blast
qed

lemma selectPosts_type_default:
  "opt_type options = None \<Longrightarrow>
   selectPosts db (options\<lparr>opt_type := Some POST\<rparr>) c = selectPosts db options c"
  by (simp add: selectPosts_def conditions_type_default sortByOf_def limitOf_def)

lemma filter_id_active_empty:
  assumes "p \<in> set ps" "\<not> active p" "distinct (map id' ps)"
  shows "filter (\<lambda>q. id' q = id' p \<and> active q) ps = []"
proof -
  have "\<And>q. q \<in> set ps \<Longrightarrow> id' q = id' p \<Longrightarrow> q = p"
    using assms(1,3) by (meson distinct_map inj_onD)
  with assms(2) show ?thesis by (auto simp: filter_empty_conv)
qed

lemma selectActivePost_None_iff:
  "selectActivePost db i = None \<longleftrightarrow> (\<forall>p \<in> set (posts db). id' p = i \<longrightarrow> \<not> active p)"
proof -
  have "selectActivePost db i = None \<longleftrightarrow> filter (\<lambda>p. id' p = i \<and> active p) (posts db) = []"
    by (simp add: selectActivePost_def split: list.splits)
  then show ?thesis by (simp add: filter_empty_conv)
qed

lemma selectActivePost_SomeD:
  "selectActivePost db i = Some p \<Longrightarrow> p \<in> set (posts db) \<and> id' p = i \<and> active p"
proof -
  assume "selectActivePost db i = Some p"
  then obtain ps where "filter (\<lambda>q. id' q = i \<and> active q) (posts db) = p # ps"
    by (auto simp: selectActivePost_def split: list.splits)
  then have "p \<in> set (filter (\<lambda>q. id' q = i \<and> active q) (posts db))" by simp
  then show ?thesis by simp
qed

lemma selectActivePost_unique:
  assumes "distinct (map id' (posts db))" "p \<in> set (posts db)" "active p"
  shows "selectActivePost db (id' p) = Some p"
proof (cases "selectActivePost db (id' p)")
  case None
  with assms show ?thesis by (auto simp: selectActivePost_None_iff)
next
  case (Some q)
  then have "q \<in> set (posts db)" "id' q = id' p" using selectActivePost_SomeD by blast+
  with assms(1,2) have "q = p" by (meson distinct_map inj_onD)
  with Some show ?thesis by simp
qed


lemma createResponse_Inr:
  assumes "createResponse now db data = (Inr response, db')"
  obtains parent where "selectActivePost db (cr_parentId data) = Some parent"
    and "response = fst (insertPost now
                 \<lparr>new_userId = cr_userId data, new_type = RESPONSE,
                  new_parentId = Some (cr_parentId data),
                  new_audioUrl = cr_audioUrl data, new_audioKey = cr_audioKey data,
                  new_duration = cr_duration data,
                  new_tags = (case cr_tags data of None \<Rightarrow> [] | Some ts \<Rightarrow> ts),
                  new_city = city parent\<rparr> db)"
    and "posts db' = map (\<lambda>p. if id' p = cr_parentId data
                                then p\<lparr>responseCount := responseCount p + 1, updatedAt := ts_date now\<rparr>
                                else p) (posts db @ [response])"
proof (cases "selectActivePost db (cr_parentId data)")
  case None
  with assms show ?thesis
    by (simp add: createResponse_def withTransaction_def createResponseBody_def)
next
  case (Some parent)
  with assms have "response = fst (insertPost now
                 \<lparr>new_userId = cr_userId data, new_type = RESPONSE,
                  new_parentId = Some (cr_parentId data),
                  new_audioUrl = cr_audioUrl data, new_audioKey = cr_audioKey data,
                  new_duration = cr_duration data,
                  new_tags = (case cr_tags data of None \<Rightarrow> [] | Some ts \<Rightarrow> ts),
                  new_city = city parent\<rparr> db)"
    and "posts db' = map (\<lambda>p. if id' p = cr_parentId data
                                then p\<lparr>responseCount := responseCount p + 1, updatedAt := ts_date now\<rparr>
                                else p) (posts db @ [response])"
    by (auto simp: createResponse_def withTransaction_def createResponseBody_def Let_def
          insertPost_def updatePost_def split: if_splits)
  with Some that show ?thesis by blast
qed

lemma mapPostToFull_summary_fields:
  "gql_id (mapPostToFull post) = gql_id (mapPostToSummary post)"
  "gql_userId (mapPostToFull post) = gql_userId (mapPostToSummary post)"
  "gql_author (mapPostToFull post) = gql_author (mapPostToSummary post)"
  "gql_type (mapPostToFull post) = gql_type (mapPostToSummary post)"
  "gql_status (mapPostToFull post) = gql_status (mapPostToSummary post)"
  "gql_parentId (mapPostToFull post) = gql_parentId (mapPostToSummary post)"
  "gql_duration (mapPostToFull post) = gql_duration (mapPostToSummary post)"
  "gql_tags (mapPostToFull post) = gql_tags (mapPostToSummary post)"
  "gql_waveformUrl (mapPostToFull post) = gql_waveformUrl (mapPostToSummary post)"
  "gql_responseCount (mapPostToFull post) = gql_responseCount (mapPostToSummary post)"
  "gql_bookmarkCount (mapPostToFull post) = gql_bookmarkCount (mapPostToSummary post)"
  "gql_isBookmarked (mapPostToFull post) = gql_isBookmarked (mapPostToSummary post)"
  "gql_createdAt (mapPostToFull post) = gql_createdAt (mapPostToSummary post)"
  by (simp_all add: mapPostToFull_def PostSummary.defs PostFull.defs Let_def)

lemma mapPostToFull_own_fields:
  "gql_audioUrl (mapPostToFull post) = (if status post = DELETED then None else Some (audioUrl post))"
  "gql_city (mapPostToFull post) = city post"
  by (simp_all add: mapPostToFull_def PostSummary.defs PostFull.defs Let_def)

lemma mapPostToSummary_passes:
  assumes "parentId p \<noteq> Some 0"
  shows "summaryPassesThrough (mapPostToSummary (withAuthor p a b)) p"
  using assms
  by (auto simp: summaryPassesThrough_def mapPostToSummary_def Let_def truthyNumber_def
           split: option.splits)

lemma mapPostToSummary_deleted:
  "status p = DELETED \<Longrightarrow> gql_waveformUrl (mapPostToSummary (withAuthor p a b)) = None"
  by (simp add: mapPostToSummary_def)

lemma in_postsJoinProfiles:
  "(p, a) \<in> set (postsJoinProfiles db) \<Longrightarrow> p \<in> set (posts db)"
  by (auto simp: postsJoinProfiles_def)

lemma getPostById_SomeD:
  assumes "getPostById db i v = Some post"
  shows "\<exists>p a b. p \<in> set (posts db) \<and> id' p = i \<and> active p \<and> post = withAuthor p a b"
proof -
  from assms obtain p a rest where
    f: "filter (\<lambda>(p, a). id' p = i \<and> active p) (postsJoinProfiles db) = (p, a) # rest"
    and post: "\<exists>b. post = withAuthor p a b"
    by (auto simp: getPostById_def split: list.splits prod.splits)
  from f have "(p, a) \<in> set (filter (\<lambda>(p, a). id' p = i \<and> active p) (postsJoinProfiles db))"
    by simp
  then have "(p, a) \<in> set (postsJoinProfiles db)" "id' p = i" "active p" by auto
  with post show ?thesis using in_postsJoinProfiles by blast
qed

lemma same_id_same_post:
  "distinct (map id' ps) \<Longrightarrow> p \<in> set ps \<Longrightarrow> q \<in> set ps \<Longrightarrow> id' q = id' p \<Longrightarrow> q = p"
  by (meson distinct_map inj_onD)

lemma connection_row:
  assumes "postsConnection msg (getPosts newDate db options) = Inr conn" and "s \<in> set (conn_posts conn)"
  shows "\<exists>p a b. p \<in> set (posts db) \<and> s = mapPostToSummary (withAuthor p a b)"
proof -
  from assms(1) obtain page where page: "getPosts newDate db options = Inr page"
    and conn: "conn_posts conn = map mapPostToSummary (page_posts page)"
    by (auto simp: postsConnection_def split: sum.splits)
  from assms(2) conn obtain post where post: "post \<in> set (page_posts page)"
    and s: "s = mapPostToSummary post" by auto
  from page post obtain c r where r: "r \<in> set (selectPosts db options c)"
    and w: "post = withAuthor (fst r) (snd r) (isBookmarked post)"
    using page_posts_from_selectPosts by blast
  from r have "r \<in> set (orderBy (sortByOf options)
          (filter (\<lambda>r. conditions options (fst r) \<and> c (fst r)) (postsJoinProfiles db)))"
    unfolding selectPosts_def by (rule in_set_takeD)
  then have "r \<in> set (postsJoinProfiles db)"
    by (cases "sortByOf options") (auto simp: ascending_def descending_def)
  then have "fst r \<in> set (posts db)" using in_postsJoinProfiles [of "fst r" "snd r" db] by simp
  moreover from s w have "s = mapPostToSummary (withAuthor (fst r) (snd r) (isBookmarked post))"
    by simp
  ultimately show ?thesis by blast
qed

lemma cnn_updatePost:
  assumes "countersNonNegative db"
    and "\<And>p. 0 \<le> responseCount p \<Longrightarrow> 0 \<le> bookmarkCount p
            \<Longrightarrow> 0 \<le> responseCount (f p) \<and> 0 \<le> bookmarkCount (f p)"
  shows "countersNonNegative (updatePost i f db)"
  using assms by (auto simp: countersNonNegative_def updatePost_def list_all_iff)

lemma cnn_insertPost:
  "countersNonNegative db \<Longrightarrow> countersNonNegative (snd (insertPost now v db))"
  by (simp add: countersNonNegative_def insertPost_def Let_def)

lemma cnn_other_tables:
  "countersNonNegative (db\<lparr>userProfiles := us\<rparr>) = countersNonNegative db"
  "countersNonNegative (db\<lparr>bookmarks := bs\<rparr>) = countersNonNegative db"
  "countersNonNegative (db\<lparr>notifications := ns\<rparr>) = countersNonNegative db"
  by (simp_all add: countersNonNegative_def)

lemma cnn_createResponse:
  assumes "countersNonNegative db"
  shows "countersNonNegative (snd (createResponse now db cr))"
proof (cases "selectActivePost db (cr_parentId cr)")
  case None
  with assms show ?thesis
    by (simp add: createResponse_def withTransaction_def createResponseBody_def)
next
  case (Some parent)
  have "countersNonNegative (snd (insertPost now v db))" for v
    using assms by (rule cnn_insertPost)
  then have "countersNonNegative (updatePost (cr_parentId cr)
                 (\<lambda>p. p\<lparr>responseCount := responseCount p + 1, updatedAt := ts_date now\<rparr>)
                 (snd (insertPost now v db)))" for v
    by (rule cnn_updatePost) simp
  with Some show ?thesis
    by (simp add: createResponse_def withTransaction_def createResponseBody_def Let_def
          cnn_other_tables)
qed

lemma cnn_deletePost:
  assumes "countersNonNegative db"
  shows "countersNonNegative (snd (deletePost now db postId uid))"
proof (cases "selectActivePost db postId")
  case None
  with assms show ?thesis
    by (simp add: deletePost_def withTransaction_def deletePostBody_def)
next
  case (Some post)
  have a: "countersNonNegative (updatePost postId (\<lambda>p. p\<lparr>active := False, updatedAt := now\<rparr>) db)"
    using assms by (rule cnn_updatePost) simp
  then have b: "countersNonNegative (updatePost parent
                     (\<lambda>p. p\<lparr>responseCount := max (responseCount p - 1) 0, updatedAt := now\<rparr>)
                     (updatePost postId (\<lambda>p. p\<lparr>active := False, updatedAt := now\<rparr>) db))" for parent
    by (rule cnn_updatePost) simp
  from Some assms a b show ?thesis
    by (simp add: deletePost_def withTransaction_def deletePostBody_def Let_def
          split: option.splits)
qed

lemma cnn_addBookmark:
  assumes "countersNonNegative db"
  shows "countersNonNegative (snd (addBookmark db uid postId))"
proof -
  have "countersNonNegative (updatePost postId (\<lambda>p. p\<lparr>bookmarkCount := bookmarkCount p + 1\<rparr>)
          (db\<lparr>bookmarks := bs\<rparr>))" for bs
    by (rule cnn_updatePost) (simp_all add: cnn_other_tables assms)
  with assms show ?thesis by (simp add: addBookmark_def)
qed

lemma cnn_removeBookmark:
  assumes "countersNonNegative db"
  shows "countersNonNegative (snd (removeBookmark db uid postId))"
proof -
  have "countersNonNegative (updatePost postId
          (\<lambda>p. p\<lparr>bookmarkCount := max (bookmarkCount p - 1) 0\<rparr>) (db\<lparr>bookmarks := bs\<rparr>))" for bs
    by (rule cnn_updatePost) (simp_all add: cnn_other_tables assms)
  with assms show ?thesis by (simp add: removeBookmark_def)
qed

lemma reachable_countersNonNegative: "reachable db \<Longrightarrow> countersNonNegative db"
proof (induction rule: reachable.induct)
  case initial
  show ?case by (simp add: countersNonNegative_def emptyStore_def)
next
  case (profiles db us)
  then show ?case by (simp add: cnn_other_tables)
next
  case (createPost db now cp)
  then show ?case by (simp add: createPost_def cnn_insertPost)
next
  case (createResponse db now cr)
  then show ?case by (simp add: cnn_createResponse)
next
  case (deletePost db now postId uid)
  then show ?case by (simp add: cnn_deletePost)
next
  case (updatePostWaveformUrl db now postId url)
  then have "countersNonNegative db" by simp
  then show ?case unfolding updatePostWaveformUrl_def by (rule cnn_updatePost) simp
next
  case (updatePostStatus db now postId st)
  then have "countersNonNegative db" by simp
  then show ?case unfolding updatePostStatus_def by (rule cnn_updatePost) simp
next
  case (addBookmark db uid postId)
  then show ?case by (simp add: cnn_addBookmark)
next
  case (removeBookmark db uid postId)
  then show ?case by (simp add: cnn_removeBookmark)
qed

lemma updatePost_hit:
  assumes "q \<in> set (posts (updatePost i f db))" and "id' q = i" and "\<And>p. id' (f p) = id' p"
  shows "\<exists>p \<in> set (posts db). q = f p"
proof -
  from assms(1) obtain p where p: "p \<in> set (posts db)"
    and q: "q = (if id' p = i then f p else p)"
    by (auto simp: updatePost_def)
  show ?thesis
  proof (cases "id' p = i")
    case True
    with p q show ?thesis by auto
  next
    case False
    with q assms(2) show ?thesis by simp
  qed
qed

lemma deletePost_parent_clamped:
  assumes "deletePost now db postId uid = (Inr True, db')"
    and "selectActivePost db postId = Some post"
    and "parentId post = Some parent" and "parent \<noteq> 0"
    and "q \<in> set (posts db')" and "id' q = parent"
  shows "0 \<le> responseCount q"
proof -
  have "userId post = uid"
    using assms(1,2) by (simp add: deletePost_def withTransaction_def deletePostBody_def split: if_splits)
  with assms(1-4) have "db' = updatePost parent
                     (\<lambda>p. p\<lparr>responseCount := max (responseCount p - 1) 0, updatedAt := now\<rparr>)
                     (updatePost postId (\<lambda>p. p\<lparr>active := False, updatedAt := now\<rparr>) db)"
    by (simp add: deletePost_def withTransaction_def deletePostBody_def Let_def)
  with assms(5) have "q \<in> set (posts (updatePost parent
                     (\<lambda>p. p\<lparr>responseCount := max (responseCount p - 1) 0, updatedAt := now\<rparr>)
                     (updatePost postId (\<lambda>p. p\<lparr>active := False, updatedAt := now\<rparr>) db)))"
    by simp
  then obtain p where "q = p\<lparr>responseCount := max (responseCount p - 1) 0, updatedAt := now\<rparr>"
    using assms(6) updatePost_hit [where f = "\<lambda>p. p\<lparr>responseCount := max (responseCount p - 1) 0, updatedAt := now\<rparr>"]
    by fastforce
  then show ?thesis by simp
qed


section \<open>Numbers and cursors as strings\<close>
















section \<open>The switches of getPosts against the strategy table\<close>



lemma rowLess_strategy:
  "\<not> sortAscending sb \<Longrightarrow> rowLess (sortColumn sb) v i = strictlyAfter sb (v, i)"
  by (rule ext) (simp add: rowLess_def strictlyAfter_def sortKey_def)

lemma rowGreater_strategy:
  "sortAscending sb \<Longrightarrow> rowGreater (sortColumn sb) v i = strictlyAfter sb (v, i)"
  by (rule ext) (simp add: rowGreater_def strictlyAfter_def sortKey_def)

lemma cursorCondition_strategy:
  "cursorCondition newDate sb cv ci =
     (case (cursorValue newDate sb cv, sqlInteger (parseInt ci)) of
        (Some v, Some i) \<Rightarrow> Inr (strictlyAfter sb (v, i))
      | _ \<Rightarrow> Inl QueryError)"
proof (cases sb)
  case NEWEST
  then show ?thesis
    using rowLess_strategy [of NEWEST] by (simp split: option.splits)
next
  case OLDEST
  then show ?thesis
    using rowGreater_strategy [of OLDEST] by (simp split: option.splits)
next
  case MOST_SAVED
  then show ?thesis
    using rowLess_strategy [of MOST_SAVED] by (simp split: option.splits)
next
  case LEAST_SAVED
  then show ?thesis
    using rowGreater_strategy [of LEAST_SAVED] by (simp split: option.splits)
next
  case MOST_RESPONSES
  then show ?thesis
    using rowLess_strategy [of MOST_RESPONSES] by (simp split: option.splits)
next
  case LEAST_RESPONSES
  then show ?thesis
    using rowGreater_strategy [of LEAST_RESPONSES] by (simp split: option.splits)
qed

lemma cursorClause_decode:
  "cursorClause newDate sb cursor =
     (case decodeCursor newDate sb cursor of
        Inl e \<Rightarrow> Inl e
      | Inr None \<Rightarrow> Inr (\<lambda>p. True)
      | Inr (Some k) \<Rightarrow> Inr (strictlyAfter sb k))"
proof (cases cursor)
  case None
  then show ?thesis by (simp add: cursorClause_def decodeCursor_def)
next
  case (Some c)
  obtain cv ci where pc: "cursorPieces c = (cv, ci)" by (cases "cursorPieces c")
  show ?thesis
  proof (cases ci)
    case None
    with Some pc show ?thesis by (simp add: cursorClause_def decodeCursor_def)
  next
    case (Some i)
    note ci = this
    show ?thesis
    proof (cases "c = [] \<or> cv = [] \<or> i = []")
      case True
      with \<open>cursor = Some c\<close> pc ci show ?thesis
        by (auto simp: cursorClause_def decodeCursor_def)
    next
      case False
      with \<open>cursor = Some c\<close> pc ci show ?thesis
        by (simp add: cursorClause_def decodeCursor_def cursorCondition_strategy
              split: option.splits)
    qed
  qed
qed

lemma cursorClause_missing_piece:
  assumes "c = [] \<or> fst (cursorPieces c) = [] \<or> snd (cursorPieces c) = None
           \<or> snd (cursorPieces c) = Some []"
  shows "cursorClause newDate sb (Some c) = cursorClause newDate sb None"
proof -
  obtain cv ci where pc: "cursorPieces c = (cv, ci)" by (cases "cursorPieces c")
  with assms have "decodeCursor newDate sb (Some c) = Inr None"
    by (cases ci) (auto simp: decodeCursor_def)
  then show ?thesis by (simp add: cursorClause_decode decodeCursor_def)
qed

lemma getPosts_cursorClause_cong:
  assumes "cursorClause newDate (sortByOf options) c1 = cursorClause newDate (sortByOf options) c2"
  shows "getPosts newDate db (options\<lparr>opt_cursor := c1\<rparr>) = getPosts newDate db (options\<lparr>opt_cursor := c2\<rparr>)"
proof -
  have [simp]: "sortByOf (options\<lparr>opt_cursor := c\<rparr>) = sortByOf options"
    "limitOf (options\<lparr>opt_cursor := c\<rparr>) = limitOf options"
    "conditions (options\<lparr>opt_cursor := c\<rparr>) = conditions options"
    "tagsRejected (options\<lparr>opt_cursor := c\<rparr>) = tagsRejected options" for c
    by (simp_all add: sortByOf_def limitOf_def conditions_def tagsRejected_def fun_eq_iff)
  have [simp]: "selectPosts db (options\<lparr>opt_cursor := c\<rparr>) cc = selectPosts db options cc" for c cc
    by (simp add: selectPosts_def)
  show ?thesis using assms
    by (simp add: getPosts_def Let_def cong: sum.case_cong if_cong)
qed

lemma truncate_withAuthor [simp]: "Post.truncate (withAuthor p a b) = p"
  by (simp add: withAuthor_def Post.defs PostWithAuthor.defs)




lemma getPosts_pageOf:
  "getPosts newDate db options =
     (if tagsRejected options then Inl QueryError
      else (case cursorClause newDate (sortByOf options) (opt_cursor options) of
              Inl e \<Rightarrow> Inl e
            | Inr cc \<Rightarrow> Inr (pageOf db options (selectPosts db options cc))))"
  by (simp add: getPosts_def pageOf_def Let_def split: sum.splits)

lemma getPosts_decoded:
  "getPosts newDate db options =
     (if tagsRejected options then Inl QueryError
      else (case decodeCursor newDate (sortByOf options) (opt_cursor options) of
              Inl e \<Rightarrow> Inl e
            | Inr k \<Rightarrow>
                Inr (pageOf db options
                       (take (limitOf options + 1)
                          (orderBy (sortByOf options) (candidateRows db options k))))))"
proof (cases "decodeCursor newDate (sortByOf options) (opt_cursor options)")
  case (Inl e)
  then show ?thesis by (simp add: getPosts_pageOf cursorClause_decode)
next
  case (Inr k)
  have sel: "selectPosts db options (\<lambda>p. case k of None \<Rightarrow> True
                 | Some c \<Rightarrow> strictlyAfter (sortByOf options) c p)
       = take (limitOf options + 1) (orderBy (sortByOf options) (candidateRows db options k))"
    by (simp add: selectPosts_def candidateRows_def)
  have cc: "cursorClause newDate (sortByOf options) (opt_cursor options)
        = Inr (\<lambda>p. case k of None \<Rightarrow> True | Some c \<Rightarrow> strictlyAfter (sortByOf options) c p)"
    using Inr by (cases k) (simp_all add: cursorClause_decode)
  show ?thesis unfolding getPosts_pageOf cc Inr by (simp only: sum.case sel)
qed


lemma getPosts_InrD:
  assumes "getPosts newDate db options = Inr page"
  obtains k where "decodeCursor newDate (sortByOf options) (opt_cursor options) = Inr k"
    and "page = pageOf db options
                  (take (limitOf options + 1)
                     (orderBy (sortByOf options) (candidateRows db options k)))"
    and "\<not> tagsRejected options"
  using assms unfolding getPosts_decoded by (auto split: sum.splits if_splits)

section \<open>Keyset continuation\<close>





































text \<open>
  Whatever date the first piece of a time cursor is read as: once the id of the cursor
  is a minutes field, and so at most the id of any row, rows of one and the same
  creation time pass the cursor condition all together or not at all. A page can then
  not continue after one of them and before the next.
\<close>

lemma time_cursor_all_or_none:
  assumes "createdAtTime p = createdAtTime q" and "i \<le> id' p" and "i \<le> id' q"
  shows "rowLess createdAtTime v i p = rowLess createdAtTime v i q"
    and "i < id' p \<Longrightarrow> i < id' q
         \<Longrightarrow> rowGreater createdAtTime v i p = rowGreater createdAtTime v i q"
  using assms by (auto simp: rowLess_def rowGreater_def)

section \<open>The time-based cursor on the sample store\<close>









section \<open>Claims about pagination\<close>





text \<open>
  Claim C2, as the code has it. The cursor is split at every colon and the first two
  pieces are read. When the cursor is empty or one of the two pieces is missing or
  empty, \<open>getPosts\<close> returns what it returns without a cursor. When both pieces are
  there and one of them does not parse, the condition is pushed all the same with a
  parameter that is no value, and the call throws.
\<close>

theorem cursor_missing_piece_is_no_cursor:
  "(c = [] \<or> fst (cursorPieces c) = [] \<or> snd (cursorPieces c) = None
      \<or> snd (cursorPieces c) = Some []
    \<longrightarrow> getPosts newDate db (options\<lparr>opt_cursor := Some c\<rparr>)
          = getPosts newDate db (options\<lparr>opt_cursor := None\<rparr>))
   \<and> (c \<noteq> [] \<and> cursorPieces c = (cv, Some ci) \<and> cv \<noteq> [] \<and> ci \<noteq> []
      \<and> (cursorValue newDate (sortByOf options) cv = None \<or> sqlInteger (parseInt ci) = None)
    \<longrightarrow> getPosts newDate db (options\<lparr>opt_cursor := Some c\<rparr>) = Inl QueryError)"
proof (rule conjI)
  show "c = [] \<or> fst (cursorPieces c) = [] \<or> snd (cursorPieces c) = None
      \<or> snd (cursorPieces c) = Some []
    \<longrightarrow> getPosts newDate db (options\<lparr>opt_cursor := Some c\<rparr>)
          = getPosts newDate db (options\<lparr>opt_cursor := None\<rparr>)"
    using cursorClause_missing_piece getPosts_cursorClause_cong by blast
next
  show "c \<noteq> [] \<and> cursorPieces c = (cv, Some ci) \<and> cv \<noteq> [] \<and> ci \<noteq> []
      \<and> (cursorValue newDate (sortByOf options) cv = None \<or> sqlInteger (parseInt ci) = None)
    \<longrightarrow> getPosts newDate db (options\<lparr>opt_cursor := Some c\<rparr>) = Inl QueryError"
  proof
    assume a: "c \<noteq> [] \<and> cursorPieces c = (cv, Some ci) \<and> cv \<noteq> [] \<and> ci \<noteq> []
      \<and> (cursorValue newDate (sortByOf options) cv = None \<or> sqlInteger (parseInt ci) = None)"
    then have "cursorClause newDate (sortByOf options) (Some c) = Inl QueryError"
      by (auto simp: cursorClause_def cursorCondition_strategy split: option.splits)
    moreover have "sortByOf (options\<lparr>opt_cursor := Some c\<rparr>) = sortByOf options"
      by (simp add: sortByOf_def)
    ultimately show "getPosts newDate db (options\<lparr>opt_cursor := Some c\<rparr>) = Inl QueryError"
      by (simp add: getPosts_def)
  qed
qed


theorem cursor_missing_piece_is_no_cursor_witness:
  "snd (cursorPieces ''garbage'') = None
   \<and> (\<forall>newDate.
        getPosts newDate fiveStore (fiveOptions\<lparr>opt_cursor := Some ''garbage''\<rparr>)
          = getPosts newDate fiveStore (fiveOptions\<lparr>opt_cursor := None\<rparr>)
        \<and> \<not> isl (getPosts newDate fiveStore (fiveOptions\<lparr>opt_cursor := Some ''garbage''\<rparr>)))"
proof -
  have h: "snd (cursorPieces ''garbage'') = None" by code_simp
  have i: "\<not> isl (getPosts newDate fiveStore (fiveOptions\<lparr>opt_cursor := Some ''garbage''\<rparr>))"
    for newDate by code_simp
  from h cursor_missing_piece_is_no_cursor [where c = "''garbage''" and db = fiveStore
      and options = fiveOptions]
  have "getPosts newDate fiveStore (fiveOptions\<lparr>opt_cursor := Some ''garbage''\<rparr>)
       = getPosts newDate fiveStore (fiveOptions\<lparr>opt_cursor := None\<rparr>)" for newDate
    by blast
  with h i show ?thesis by blast
qed

text \<open>
  Claim C2 as stated fails on a cursor whose pieces are present and unparsable: with
  \<open>"abc:def"\<close> the call throws, and without a cursor it returns the first page.
\<close>

theorem unparsable_cursor_counterexample:
  "\<forall>newDate.
     getPosts newDate fiveStore
       (fiveOptions\<lparr>opt_sortBy := Some LEAST_SAVED, opt_cursor := Some ''abc:def''\<rparr>)
       = Inl QueryError
     \<and> \<not> isl (getPosts newDate fiveStore
                (fiveOptions\<lparr>opt_sortBy := Some LEAST_SAVED, opt_cursor := None\<rparr>))
     \<and> getPosts newDate fiveStore
         (fiveOptions\<lparr>opt_sortBy := Some LEAST_SAVED, opt_cursor := Some ''abc:def''\<rparr>)
         \<noteq> getPosts newDate fiveStore
             (fiveOptions\<lparr>opt_sortBy := Some LEAST_SAVED, opt_cursor := None\<rparr>)"
proof (intro allI)
  fix newDate :: DateParser
  have a: "getPosts newDate fiveStore
             (fiveOptions\<lparr>opt_sortBy := Some LEAST_SAVED, opt_cursor := Some ''abc:def''\<rparr>)
           = Inl QueryError"
    by code_simp
  have b: "\<not> isl (getPosts newDate fiveStore
                    (fiveOptions\<lparr>opt_sortBy := Some LEAST_SAVED, opt_cursor := None\<rparr>))"
    by code_simp
  have c: "getPosts newDate fiveStore
             (fiveOptions\<lparr>opt_sortBy := Some LEAST_SAVED, opt_cursor := Some ''abc:def''\<rparr>)
           \<noteq> getPosts newDate fiveStore
               (fiveOptions\<lparr>opt_sortBy := Some LEAST_SAVED, opt_cursor := None\<rparr>)"
  proof
    assume "getPosts newDate fiveStore
             (fiveOptions\<lparr>opt_sortBy := Some LEAST_SAVED, opt_cursor := Some ''abc:def''\<rparr>)
           = getPosts newDate fiveStore
               (fiveOptions\<lparr>opt_sortBy := Some LEAST_SAVED, opt_cursor := None\<rparr>)"
    with a have "getPosts newDate fiveStore
               (fiveOptions\<lparr>opt_sortBy := Some LEAST_SAVED, opt_cursor := None\<rparr>)
             = Inl QueryError" by simp
    then have "isl (getPosts newDate fiveStore
               (fiveOptions\<lparr>opt_sortBy := Some LEAST_SAVED, opt_cursor := None\<rparr>))"
      by (simp only: sum.disc)
    with b show False by (rule notE)
  qed
  from a b c show "getPosts newDate fiveStore
       (fiveOptions\<lparr>opt_sortBy := Some LEAST_SAVED, opt_cursor := Some ''abc:def''\<rparr>)
       = Inl QueryError
     \<and> \<not> isl (getPosts newDate fiveStore
                (fiveOptions\<lparr>opt_sortBy := Some LEAST_SAVED, opt_cursor := None\<rparr>))
     \<and> getPosts newDate fiveStore
         (fiveOptions\<lparr>opt_sortBy := Some LEAST_SAVED, opt_cursor := Some ''abc:def''\<rparr>)
         \<noteq> getPosts newDate fiveStore
             (fiveOptions\<lparr>opt_sortBy := Some LEAST_SAVED, opt_cursor := None\<rparr>)"
    by (intro conjI)
qed





section \<open>Claims about reading\<close>

text \<open>
  Claim C10. Without a viewer id, \<open>getPostById\<close> and \<open>getPosts\<close> do not look at the
  bookmarks: every projection they return has \<open>isBookmarked = false\<close>, and replacing the
  bookmarks table by any other leaves both results as they are.
\<close>

theorem no_viewer_never_bookmarked:
  "(\<forall>post. getPostById db i None = Some post \<longrightarrow> \<not> isBookmarked post)
   \<and> (\<forall>page. getPosts newDate db (options\<lparr>opt_viewerUserId := None\<rparr>) = Inr page
         \<longrightarrow> (\<forall>post \<in> set (page_posts page). \<not> isBookmarked post))
   \<and> getPostById (db\<lparr>bookmarks := bs\<rparr>) i None = getPostById db i None
   \<and> getPosts newDate (db\<lparr>bookmarks := bs\<rparr>) (options\<lparr>opt_viewerUserId := None\<rparr>)
       = getPosts newDate db (options\<lparr>opt_viewerUserId := None\<rparr>)"
proof (intro conjI allI impI)
  fix post assume "getPostById db i None = Some post"
  then show "\<not> isBookmarked post"
    by (auto simp: getPostById_def split: list.splits prod.splits)
next
  fix page assume "getPosts newDate db (options\<lparr>opt_viewerUserId := None\<rparr>) = Inr page"
  then show "\<forall>post \<in> set (page_posts page). \<not> isBookmarked post"
    by (auto simp: getPosts_def bookmarkedPostIds_def Let_def split: sum.splits if_splits)
next
  show "getPostById (db\<lparr>bookmarks := bs\<rparr>) i None = getPostById db i None"
    by (simp add: getPostById_def cong: list.case_cong)
next
  show "getPosts newDate (db\<lparr>bookmarks := bs\<rparr>) (options\<lparr>opt_viewerUserId := None\<rparr>)
       = getPosts newDate db (options\<lparr>opt_viewerUserId := None\<rparr>)"
    by (simp add: getPosts_def bookmarkedPostIds_def tagsRejected_def Let_def
          cong: sum.case_cong if_cong)
qed


theorem no_viewer_never_bookmarked_witness:
  "(\<exists>b \<in> set (bookmarks sampleStore). bookmark_postId b = 1)
   \<and> (\<exists>post. getPostById sampleStore 1 None = Some post \<and> \<not> isBookmarked post)
   \<and> (\<forall>newDate. \<exists>page.
         getPosts newDate sampleStore (noOptions\<lparr>opt_viewerUserId := None\<rparr>) = Inr page
         \<and> page_posts page \<noteq> [] \<and> (\<forall>post \<in> set (page_posts page). \<not> isBookmarked post))"
proof -
  have b: "\<exists>b \<in> set (bookmarks sampleStore). bookmark_postId b = 1"
    by (simp add: sampleStore_def)
  have g: "getPostById sampleStore 1 None \<noteq> None"
    by code_simp
  have p: "\<exists>page. getPosts newDate sampleStore (noOptions\<lparr>opt_viewerUserId := None\<rparr>) = Inr page
             \<and> page_posts page \<noteq> []" for newDate
  proof -
    have "\<not> isl (getPosts newDate sampleStore (noOptions\<lparr>opt_viewerUserId := None\<rparr>))
        \<and> page_posts (projr (getPosts newDate sampleStore
                                  (noOptions\<lparr>opt_viewerUserId := None\<rparr>))) \<noteq> []"
      by code_simp
    then show ?thesis
      by (cases "getPosts newDate sampleStore (noOptions\<lparr>opt_viewerUserId := None\<rparr>)") auto
  qed
  have q: "\<exists>page. getPosts newDate sampleStore (noOptions\<lparr>opt_viewerUserId := None\<rparr>) = Inr page
         \<and> page_posts page \<noteq> [] \<and> (\<forall>post \<in> set (page_posts page). \<not> isBookmarked post)"
    for newDate
    using p [of newDate]
      no_viewer_never_bookmarked [where db = sampleStore and options = noOptions
        and newDate = newDate]
    by blast
  from g no_viewer_never_bookmarked [where db = sampleStore and i = 1]
  have r: "\<exists>post. getPostById sampleStore 1 None = Some post \<and> \<not> isBookmarked post"
    by auto
  from b r q show ?thesis by blast
qed

text \<open>
  Claim C9. A call of \<open>getPosts\<close> without a type is the call with type \<open>POST\<close>: every row
  of its page has type \<open>POST\<close>, so responses are listed only when \<open>RESPONSE\<close> is asked
  for.
\<close>

theorem type_defaults_to_POST:
  assumes "opt_type options = None"
  shows "getPosts newDate db options = getPosts newDate db (options\<lparr>opt_type := Some POST\<rparr>)
         \<and> (\<forall>page. getPosts newDate db options = Inr page
               \<longrightarrow> (\<forall>post \<in> set (page_posts page). type post = POST))"
proof (intro conjI allI impI ballI)
  have "sortByOf (options\<lparr>opt_type := Some POST\<rparr>) = sortByOf options"
    and "limitOf (options\<lparr>opt_type := Some POST\<rparr>) = limitOf options"
    by (simp_all add: sortByOf_def limitOf_def)
  then show "getPosts newDate db options = getPosts newDate db (options\<lparr>opt_type := Some POST\<rparr>)"
    using assms
    by (simp add: getPosts_def selectPosts_type_default tagsRejected_def Let_def
          cong: sum.case_cong if_cong)
next
  fix page post
  assume "getPosts newDate db options = Inr page" and "post \<in> set (page_posts page)"
  then obtain c r where r: "r \<in> set (selectPosts db options c)"
    and post: "post = withAuthor (fst r) (snd r) (isBookmarked post)"
    using page_posts_from_selectPosts by blast
  from r have "conditions options (fst r)" by (simp add: in_selectPosts_conditions)
  with assms have "type (fst r) = POST" by (simp add: conditions_def)
  with post show "type post = POST" by (metis fields_withAuthor(3))
qed


theorem type_defaults_to_POST_witness:
  "opt_type noOptions = None
   \<and> (\<exists>p \<in> set (posts sampleStore). active p \<and> type p = RESPONSE)
   \<and> (\<forall>newDate. \<exists>page.
         getPosts newDate sampleStore noOptions = Inr page \<and> page_posts page \<noteq> []
         \<and> (\<forall>post \<in> set (page_posts page). type post = POST))"
proof -
  have h: "opt_type noOptions = None" by (simp add: noOptions_def)
  have r: "\<exists>p \<in> set (posts sampleStore). active p \<and> type p = RESPONSE"
    by (simp add: sampleStore_def samplePost_def)
  have q: "\<exists>page. getPosts newDate sampleStore noOptions = Inr page \<and> page_posts page \<noteq> []
         \<and> (\<forall>post \<in> set (page_posts page). type post = POST)" for newDate
  proof -
    have "\<not> isl (getPosts newDate sampleStore noOptions)
        \<and> page_posts (projr (getPosts newDate sampleStore noOptions)) \<noteq> []"
      by code_simp
    then have p: "\<exists>page. getPosts newDate sampleStore noOptions = Inr page
                    \<and> page_posts page \<noteq> []"
      by (cases "getPosts newDate sampleStore noOptions") auto
    from p type_defaults_to_POST [OF h, where db = sampleStore and newDate = newDate]
    show ?thesis by auto
  qed
  from h r q show ?thesis by blast
qed

text \<open>
  Claim C3. A stored post whose status is \<open>DELETED\<close> is redacted wherever it is read: the
  full view of \<open>getPostById\<close> has \<open>audioUrl = null\<close> and \<open>waveformUrl = null\<close>, and every
  row for it in a page of \<open>getPosts\<close>, whatever the options and the listing resolver, has
  \<open>waveformUrl = null\<close> (a summary has no \<open>audioUrl\<close> field at all). The other fields,
  the status among them, are those of the stored post. Ids are the primary key of the
  table and start at 1, so no parent id is 0.
\<close>

theorem deleted_post_is_redacted:
  assumes "p \<in> set (posts db)" and "status p = DELETED"
    and "distinct (map id' (posts db))" and "parentId p \<noteq> Some 0"
  shows "(\<forall>full. Query_getPostById db uid (id' p) = Some full \<longrightarrow>
            gql_audioUrl full = None \<and> gql_waveformUrl full = None
            \<and> summaryPassesThrough (PostSummary.truncate full) p \<and> gql_city full = city p)
         \<and> (\<forall>msg options conn s.
              postsConnection msg (getPosts newDate db options) = Inr conn \<longrightarrow>
              s \<in> set (conn_posts conn) \<longrightarrow> gql_id s = id' p \<longrightarrow>
              gql_waveformUrl s = None \<and> summaryPassesThrough s p)"
proof -
  have "gql_audioUrl full = None \<and> gql_waveformUrl full = None
            \<and> summaryPassesThrough (PostSummary.truncate full) p \<and> gql_city full = city p"
    if "Query_getPostById db uid (id' p) = Some full" for full
  proof -
    from that obtain post where g: "getPostById db (id' p) (Some uid) = Some post"
      and full: "full = mapPostToFull post"
      by (auto simp: Query_getPostById_def split: option.splits)
    from g obtain q a b where q: "q \<in> set (posts db)" "id' q = id' p"
      and post: "post = withAuthor q a b"
      using getPostById_SomeD by blast
    from q assms(1,3) have "q = p" using same_id_same_post by blast
    with post full have full': "full = mapPostToFull (withAuthor p a b)" by simp
    have t: "PostSummary.truncate (mapPostToFull (withAuthor p a b))
               = mapPostToSummary (withAuthor p a b)"
      by (simp add: mapPostToFull_def PostSummary.defs PostFull.defs Let_def)
    show ?thesis
      using assms(2,4) full' t
      by (simp add: mapPostToFull_own_fields mapPostToFull_summary_fields
            mapPostToSummary_deleted mapPostToSummary_passes)
  qed
  moreover have "gql_waveformUrl s = None \<and> summaryPassesThrough s p"
    if "postsConnection msg (getPosts newDate db options) = Inr conn" "s \<in> set (conn_posts conn)"
      and i: "gql_id s = id' p" for msg options conn s
  proof -
    from that obtain q a b where q: "q \<in> set (posts db)"
      and s: "s = mapPostToSummary (withAuthor q a b)"
      using connection_row by blast
    from s i have "id' q = id' p" by (simp add: mapPostToSummary_def)
    with q assms(1,3) have "q = p" using same_id_same_post by blast
    with s assms(2,4) show ?thesis
      by (simp add: mapPostToSummary_deleted mapPostToSummary_passes)
  qed
  ultimately show ?thesis by blast
qed


theorem deleted_post_is_redacted_witness:
  "(\<exists>full. Query_getPostById sampleStore 8 4 = Some full
       \<and> gql_audioUrl full = None \<and> gql_waveformUrl full = None
       \<and> gql_status full = DELETED \<and> gql_city full = ''tokyo'')
   \<and> (\<forall>newDate. \<exists>conn.
         Query_getPosts newDate sampleStore 8 None None None None = Inr conn
         \<and> (\<exists>s \<in> set (conn_posts conn). gql_id s = 4)
         \<and> (\<forall>s \<in> set (conn_posts conn). gql_id s = 4
               \<longrightarrow> gql_waveformUrl s = None \<and> gql_status s = DELETED))"
proof -
  let ?p = "(samplePost 4 7)\<lparr>status := DELETED\<rparr>"
  have h: "?p \<in> set (posts sampleStore)" "status ?p = DELETED"
    "distinct (map id' (posts sampleStore))" "parentId ?p \<noteq> Some 0"
    by (simp_all add: sampleStore_def samplePost_def)
  have i: "id' ?p = 4" "city ?p = ''tokyo''" by (simp_all add: samplePost_def)
  have g: "Query_getPostById sampleStore 8 4 \<noteq> None"
    by code_simp
  have st: "summaryPassesThrough s ?p \<Longrightarrow> gql_status s = DELETED" for s
    by (simp add: summaryPassesThrough_def)
  have st': "summaryPassesThrough (PostSummary.truncate full) ?p \<Longrightarrow> gql_status full = DELETED"
    for full :: PostFull
    by (simp add: summaryPassesThrough_def PostSummary.defs)
  have 2: "\<exists>conn. Query_getPosts newDate sampleStore 8 None None None None = Inr conn
         \<and> (\<exists>s \<in> set (conn_posts conn). gql_id s = 4)
         \<and> (\<forall>s \<in> set (conn_posts conn). gql_id s = 4
               \<longrightarrow> gql_waveformUrl s = None \<and> gql_status s = DELETED)" for newDate
  proof -
    have "\<not> isl (Query_getPosts newDate sampleStore 8 None None None None)
        \<and> (\<exists>s \<in> set (conn_posts (projr (Query_getPosts newDate sampleStore 8
                                            None None None None))).
              gql_id s = 4)"
      by code_simp
    then obtain conn
      where cn: "Query_getPosts newDate sampleStore 8 None None None None = Inr conn"
      and ex: "\<exists>s \<in> set (conn_posts conn). gql_id s = 4"
      by (cases "Query_getPosts newDate sampleStore 8 None None None None") auto
    from deleted_post_is_redacted [OF h, where newDate = newDate] i
    have row: "\<And>conn s. Query_getPosts newDate sampleStore 8 None None None None = Inr conn
      \<Longrightarrow> s \<in> set (conn_posts conn) \<Longrightarrow> gql_id s = 4
      \<Longrightarrow> gql_waveformUrl s = None \<and> summaryPassesThrough s ?p"
      unfolding Query_getPosts_def by auto
    from row [OF cn] st have "\<forall>s \<in> set (conn_posts conn). gql_id s = 4
               \<longrightarrow> gql_waveformUrl s = None \<and> gql_status s = DELETED"
      by blast
    with cn ex show ?thesis by blast
  qed
  from deleted_post_is_redacted [OF h, where uid = 8] i
  have full: "\<And>full. Query_getPostById sampleStore 8 4 = Some full \<Longrightarrow>
      gql_audioUrl full = None \<and> gql_waveformUrl full = None
      \<and> summaryPassesThrough (PostSummary.truncate full) ?p \<and> gql_city full = ''tokyo''"
    by simp
  from g obtain full where f: "Query_getPostById sampleStore 8 4 = Some full" by auto
  from full [OF f] st' f have 1: "\<exists>full. Query_getPostById sampleStore 8 4 = Some full
       \<and> gql_audioUrl full = None \<and> gql_waveformUrl full = None
       \<and> gql_status full = DELETED \<and> gql_city full = ''tokyo''"
    by blast
  from 1 2 show ?thesis by blast
qed

section \<open>Claims about writing\<close>



text \<open>
  Claim C5. The row a successful \<open>createResponse\<close> inserts, both as it is returned and as
  it stands in the table afterwards, has type \<open>RESPONSE\<close>, the given parent id, and the
  city of the parent post.
\<close>

theorem createResponse_inserted_row:
  assumes "createResponse now db data = (Inr response, db')"
    and "distinct (map id' (posts db))"
    and "parent \<in> set (posts db)" and "id' parent = cr_parentId data" and "active parent"
  shows "type response = RESPONSE \<and> parentId response = Some (cr_parentId data)
         \<and> city response = city parent
         \<and> posts db' \<noteq> []
         \<and> id' (last (posts db')) = id' response
         \<and> type (last (posts db')) = RESPONSE
         \<and> parentId (last (posts db')) = Some (cr_parentId data)
         \<and> city (last (posts db')) = city parent
         \<and> length (posts db') = length (posts db) + 1"
proof -
  from assms(1) obtain par where par: "selectActivePost db (cr_parentId data) = Some par"
    and r: "response = fst (insertPost now
                 \<lparr>new_userId = cr_userId data, new_type = RESPONSE,
                  new_parentId = Some (cr_parentId data),
                  new_audioUrl = cr_audioUrl data, new_audioKey = cr_audioKey data,
                  new_duration = cr_duration data,
                  new_tags = (case cr_tags data of None \<Rightarrow> [] | Some ts \<Rightarrow> ts),
                  new_city = city par\<rparr> db)"
    and ps: "posts db' = map (\<lambda>p. if id' p = cr_parentId data
                                then p\<lparr>responseCount := responseCount p + 1, updatedAt := ts_date now\<rparr>
                                else p) (posts db @ [response])"
    by (rule createResponse_Inr)
  have "selectActivePost db (id' parent) = Some parent"
    using assms(2,3,5) by (rule selectActivePost_unique)
  with par assms(4) have "par = parent" by simp
  with r have f: "type response = RESPONSE" "parentId response = Some (cr_parentId data)"
    "city response = city parent"
    by (simp_all add: insertPost_def Let_def)
  from ps have l: "last (posts db') = (if id' response = cr_parentId data
                                then response\<lparr>responseCount := responseCount response + 1,
                                              updatedAt := ts_date now\<rparr>
                                else response)"
    by (simp add: last_map)
  from ps have "posts db' \<noteq> []" "length (posts db') = length (posts db) + 1" by simp_all
  with f l show ?thesis by simp
qed


theorem createResponse_inserted_row_witness:
  "\<exists>response db'.
      createResponse sampleNow sampleStore (sampleResponse 1) = (Inr response, db')
      \<and> type response = RESPONSE \<and> parentId response = Some 1
      \<and> city response = ''tokyo''
      \<and> (\<exists>u \<in> set (userProfiles sampleStore).
            profile_userId u = cr_userId (sampleResponse 1) \<and> profile_city u = ''singapore'')"
proof -
  let ?parent = "(samplePost 1 7)\<lparr>bookmarkCount := 1, responseCount := 1\<rparr>"
  have s: "selectActivePost sampleStore 1 = Some ?parent"
    by (simp add: selectActivePost_def sampleStore_def samplePost_def)
  obtain response db' where
    c: "createResponse sampleNow sampleStore (sampleResponse 1) = (Inr response, db')"
    using s by (simp add: createResponse_def withTransaction_def createResponseBody_def
                  sampleResponse_def Let_def)
  have h: "distinct (map id' (posts sampleStore))" "?parent \<in> set (posts sampleStore)"
    "id' ?parent = cr_parentId (sampleResponse 1)" "active ?parent"
    by (simp_all add: sampleStore_def samplePost_def sampleResponse_def)
  have u: "\<exists>u \<in> set (userProfiles sampleStore).
            profile_userId u = cr_userId (sampleResponse 1) \<and> profile_city u = ''singapore''"
    by (simp add: sampleStore_def sampleProfile_def sampleResponse_def)
  from createResponse_inserted_row [OF c h]
  have "type response = RESPONSE \<and> parentId response = Some 1 \<and> city response = ''tokyo''"
    by (simp add: sampleResponse_def samplePost_def)
  with c u show ?thesis by blast
qed

text \<open>
  Claim C7. \<open>deletePost\<close> on a post that is already inactive returns \<open>false\<close>, which the
  resolver reports as \<open>NOT_FOUND\<close>, and the store is as before: the post stays inactive
  and no counter of any parent is decremented again.
\<close>

theorem deletePost_inactive_not_found:
  assumes "p \<in> set (posts db)" and "\<not> active p" and "distinct (map id' (posts db))"
  shows "deletePost now db (id' p) uid = (Inr False, db)
         \<and> Mutation_deletePost now db uid (id' p)
             = (Inl (GraphQLError ''Post not found'' NOT_FOUND), db)"
proof -
  have "selectActivePost db (id' p) = None"
    using assms by (simp add: selectActivePost_def filter_id_active_empty)
  then have d: "deletePost now db (id' p) uid = (Inr False, db)"
    by (simp add: deletePost_def withTransaction_def deletePostBody_def)
  then show ?thesis by (simp add: Mutation_deletePost_def)
qed


theorem deletePost_inactive_not_found_witness:
  "(\<exists>p \<in> set (posts sampleStore). id' p = 3 \<and> \<not> active p \<and> parentId p = Some 1)
   \<and> deletePost sampleDate sampleStore 3 8 = (Inr False, sampleStore)
   \<and> Mutation_deletePost sampleDate sampleStore 8 3
       = (Inl (GraphQLError ''Post not found'' NOT_FOUND), sampleStore)"
proof -
  let ?p = "(samplePost 3 8)\<lparr>type := RESPONSE, parentId := Some 1, active := False\<rparr>"
  have h: "?p \<in> set (posts sampleStore)" "\<not> active ?p"
    "distinct (map id' (posts sampleStore))"
    by (simp_all add: sampleStore_def samplePost_def)
  have i: "id' ?p = 3" by (simp add: samplePost_def)
  have e: "\<exists>p \<in> set (posts sampleStore). id' p = 3 \<and> \<not> active p \<and> parentId p = Some 1"
    by (simp add: sampleStore_def samplePost_def)
  from deletePost_inactive_not_found [OF h, of sampleDate 8] i e
  show ?thesis by simp
qed

text \<open>
  Claim C8. In every store the operations lead to from the empty one, \<open>responseCount\<close> and
  \<open>bookmarkCount\<close> of every post are at least 0. And in any store at all, after
  \<open>deletePost\<close> has deleted a response, the \<open>responseCount\<close> of its parent is at least 0:
  the decrement is clamped.
\<close>

theorem counters_never_negative:
  "(reachable db \<longrightarrow> (\<forall>p \<in> set (posts db). 0 \<le> responseCount p \<and> 0 \<le> bookmarkCount p))
   \<and> (\<forall>post parent db' q.
        deletePost now db postId uid = (Inr True, db') \<longrightarrow>
        selectActivePost db postId = Some post \<longrightarrow>
        parentId post = Some parent \<longrightarrow> parent \<noteq> 0 \<longrightarrow>
        q \<in> set (posts db') \<longrightarrow> id' q = parent \<longrightarrow> 0 \<le> responseCount q)"
proof (rule conjI)
  show "reachable db \<longrightarrow> (\<forall>p \<in> set (posts db). 0 \<le> responseCount p \<and> 0 \<le> bookmarkCount p)"
    using reachable_countersNonNegative [of db]
    by (simp add: countersNonNegative_def list_all_iff)
next
  show "\<forall>post parent db' q.
        deletePost now db postId uid = (Inr True, db') \<longrightarrow>
        selectActivePost db postId = Some post \<longrightarrow>
        parentId post = Some parent \<longrightarrow> parent \<noteq> 0 \<longrightarrow>
        q \<in> set (posts db') \<longrightarrow> id' q = parent \<longrightarrow> 0 \<le> responseCount q"
  proof (intro allI impI)
    fix post parent db' q
    assume "deletePost now db postId uid = (Inr True, db')"
      "selectActivePost db postId = Some post"
      "parentId post = Some parent" "parent \<noteq> 0"
      "q \<in> set (posts db')" "id' q = parent"
    then show "0 \<le> responseCount q" by (rule deletePost_parent_clamped)
  qed
qed


theorem counters_never_negative_witness:
  "reachable scenarioStore
   \<and> (\<exists>p \<in> set (posts scenarioStore). id' p = 1 \<and> responseCount p = 0)
   \<and> countersNonNegative scenarioStore"
proof -
  have r: "reachable scenarioStore"
    unfolding scenarioStore_def by (intro reachable.intros)
  have e: "\<exists>p \<in> set (posts scenarioStore). id' p = 1 \<and> responseCount p = 0"
    by code_simp
  from r counters_never_negative [of scenarioStore]
  have "countersNonNegative scenarioStore"
    by (simp add: countersNonNegative_def list_all_iff)
  with r e show ?thesis by blast
qed

end
